theory Spec2Isabelle
  imports Main "HOL-Library.Word"
begin

unbundle bit_operations_syntax

section \<open>Go standard library functions used by the program\<close>

text \<open>
  Go strings are byte sequences; they are modelled as \<open>string\<close> (a list of characters).
  The functions below follow the documented behaviour of package \<open>strings\<close>:
  \<open>Index\<close> is the position of the first occurrence of a separator, \<open>Contains\<close>,
  \<open>Cut\<close> and \<open>SplitN\<close> are defined from it as the library does.
\<close>

fun HasPrefix :: "string \<Rightarrow> string \<Rightarrow> bool" where
  "HasPrefix s [] = True"
| "HasPrefix [] (p # ps) = False"
| "HasPrefix (c # cs) (p # ps) = (c = p \<and> HasPrefix cs ps)"

definition TrimPrefix :: "string \<Rightarrow> string \<Rightarrow> string" where
  "TrimPrefix s p = (if HasPrefix s p then drop (length p) s else s)"

fun Index :: "string \<Rightarrow> string \<Rightarrow> nat option" where
  "Index [] sep = (if HasPrefix [] sep then Some 0 else None)"
| "Index (c # cs) sep =
     (if HasPrefix (c # cs) sep then Some 0 else map_option Suc (Index cs sep))"

definition Contains :: "string \<Rightarrow> string \<Rightarrow> bool" where
  "Contains s substr = (Index s substr \<noteq> None)"

text \<open>\<open>Cut\<close> returns the text before and after the first separator and whether it was found.\<close>

definition Cut :: "string \<Rightarrow> string \<Rightarrow> string \<times> string \<times> bool" where
  "Cut s sep =
     (case Index s sep of
        Some i \<Rightarrow> (take i s, drop (i + length sep) s, True)
      | None \<Rightarrow> (s, [], False))"

text \<open>\<open>SplitN s sep n\<close> for a non-empty separator: at most \<open>n\<close> pieces, the last one the
  unsplit remainder.\<close>

fun SplitN :: "string \<Rightarrow> string \<Rightarrow> nat \<Rightarrow> string list" where
  "SplitN s sep 0 = []"
| "SplitN s sep (Suc 0) = [s]"
| "SplitN s sep (Suc (Suc n)) =
     (case Index s sep of
        None \<Rightarrow> [s]
      | Some m \<Rightarrow> take m s # SplitN (drop (m + length sep) s) sep (Suc n))"

section \<open>Errors\<close>

datatype ctx_err = Canceled | DeadlineExceeded

text \<open>Every error value the secret resolution code creates or passes on. \<open>SdkError\<close> and
  \<open>JsonError\<close> are the opaque errors of the AWS SDK and of \<open>json.Unmarshal\<close>; the other
  constructors are the \<open>fmt.Errorf\<close> calls of the source, with their arguments.\<close>

datatype error =
    SdkError string
  | ContextError ctx_err
  | JsonError string
  | EmptyReference
  | EmptyName
  | BinaryNotSupported
  | ParameterNoValue
  | FailedAfterRetries nat "error option"
  | NotJSON string error
  | KeyNotFound string string
  | ResolveFailed string error
  | LoadConfigFailed error

fun show_nat :: "nat \<Rightarrow> string" where
  "show_nat n =
     (if n < 10 then [char_of (48 + n)]
      else show_nat (n div 10) @ [char_of (48 + n mod 10)])"

declare show_nat.simps [simp del]

text \<open>The text of each error, from the format strings of the source.\<close>

fun error_message :: "error \<Rightarrow> string" where
  "error_message (SdkError m) = m"
| "error_message (ContextError Canceled) = ''context canceled''"
| "error_message (ContextError DeadlineExceeded) = ''context deadline exceeded''"
| "error_message (JsonError m) = m"
| "error_message EmptyReference = ''empty secret reference''"
| "error_message EmptyName = ''empty secret name''"
| "error_message BinaryNotSupported = ''binary secrets not supported''"
| "error_message ParameterNoValue = ''parameter has no value''"
| "error_message (FailedAfterRetries n e) =
     ''failed after '' @ show_nat n @ '' retries: '' @
       (case e of None \<Rightarrow> ''%!w(<nil>)'' | Some e' \<Rightarrow> error_message e')"
| "error_message (NotJSON s e) =
     ''secret '' @ s @ '' is not valid JSON: '' @ error_message e"
| "error_message (KeyNotFound k s) = ''key '' @ k @ '' not found in secret '' @ s"
| "error_message (ResolveFailed n e) = ''failed to resolve '' @ n @ '': '' @ error_message e"
| "error_message (LoadConfigFailed e) = ''failed to load AWS config: '' @ error_message e"

section \<open>The outside world\<close>

text \<open>
  The effects of the resolution code, in the order they happen. Durations are in
  milliseconds.
\<close>

datatype effect =
    LoadConfig
  | NewClients
  | CallGetSecretValue string
  | CallGetParameter string bool
  | TimerElapsed nat
  | CtxDoneDuring nat

text \<open>
  What the code cannot decide by itself is read from a \<open>world\<close>: the answer of each call
  may depend on everything done so far (the trace of effects).
  \<^item> \<open>LoadDefaultConfig\<close>: the error of \<open>config.LoadDefaultConfig\<close>, if any;
  \<^item> \<open>GetSecretValue\<close>: the SDK's answer for a secret id: an error, or a response whose
    \<open>SecretString\<close> is \<open>None\<close> (nil) or \<open>Some\<close> text;
  \<^item> \<open>GetParameter\<close>: the SDK's answer for a parameter name and the decryption flag: an
    error, a response with \<open>Parameter\<close> nil (\<open>None\<close>), with \<open>Parameter.Value\<close> nil
    (\<open>Some None\<close>) or with a value;
  \<^item> \<open>ctx_Done\<close>: the outcome of the \<open>select\<close> between \<open>ctx.Done()\<close> and
    \<open>time.After d\<close>: \<open>Some e\<close> when the context is done first, with \<open>e\<close> the value of
    \<open>ctx.Err()\<close>, and \<open>None\<close> when the timer fires first;
  \<^item> \<open>Unmarshal\<close>: \<open>json.Unmarshal\<close> into a \<open>map[string]string\<close>.
\<close>

record world =
  LoadDefaultConfig :: "effect list \<Rightarrow> error option"
  GetSecretValue :: "effect list \<Rightarrow> string \<Rightarrow> error + string option"
  GetParameter :: "effect list \<Rightarrow> string \<Rightarrow> bool \<Rightarrow> error + string option option"
  ctx_Done :: "effect list \<Rightarrow> nat \<Rightarrow> error option"
  Unmarshal :: "string \<Rightarrow> error + (string \<rightharpoonup> string)"

section \<open>Secret resolution\<close>

definition secretPrefix :: string where
  "secretPrefix = ''aws-secret:''"

definition maxRetries :: nat where
  "maxRetries = 3"

definition retryDelay :: nat where
  "retryDelay = 100"

text \<open>The loop of \<open>getSecret\<close>: \<open>i\<close> is the loop counter, \<open>lastErr\<close> the variable of the
  same name, the last argument the trace so far.\<close>

function getSecret_loop ::
  "world \<Rightarrow> string \<Rightarrow> nat \<Rightarrow> error option \<Rightarrow> effect list \<Rightarrow> (error + string) \<times> effect list"
where
  "getSecret_loop w name i lastErr tr =
     (if i < maxRetries then
        (case (if 0 < i then ctx_Done w tr (retryDelay * i) else None) of
           Some cerr \<Rightarrow> (Inl cerr, tr @ [CtxDoneDuring (retryDelay * i)])
         | None \<Rightarrow>
            (let tr1 = (if 0 < i then tr @ [TimerElapsed (retryDelay * i)] else tr);
                 tr2 = tr1 @ [CallGetSecretValue name]
             in case GetSecretValue w tr1 name of
                  Inl err \<Rightarrow> getSecret_loop w name (i + 1) (Some err) tr2
                | Inr None \<Rightarrow> (Inl BinaryNotSupported, tr2)
                | Inr (Some s) \<Rightarrow> (Inr s, tr2)))
      else (Inl (FailedAfterRetries maxRetries lastErr), tr))"
  by pat_completeness auto
termination
  by (relation "measure (\<lambda>(w, name, i, lastErr, tr). maxRetries - i)") auto

declare getSecret_loop.simps [simp del]

definition getSecret :: "world \<Rightarrow> string \<Rightarrow> effect list \<Rightarrow> (error + string) \<times> effect list" where
  "getSecret w name tr = getSecret_loop w name 0 None tr"

function getParameter_loop ::
  "world \<Rightarrow> string \<Rightarrow> nat \<Rightarrow> error option \<Rightarrow> effect list \<Rightarrow> (error + string) \<times> effect list"
where
  "getParameter_loop w name i lastErr tr =
     (if i < maxRetries then
        (case (if 0 < i then ctx_Done w tr (retryDelay * i) else None) of
           Some cerr \<Rightarrow> (Inl cerr, tr @ [CtxDoneDuring (retryDelay * i)])
         | None \<Rightarrow>
            (let tr1 = (if 0 < i then tr @ [TimerElapsed (retryDelay * i)] else tr);
                 tr2 = tr1 @ [CallGetParameter name True]
             in case GetParameter w tr1 name True of
                  Inl err \<Rightarrow> getParameter_loop w name (i + 1) (Some err) tr2
                | Inr None \<Rightarrow> (Inl ParameterNoValue, tr2)
                | Inr (Some None) \<Rightarrow> (Inl ParameterNoValue, tr2)
                | Inr (Some (Some v)) \<Rightarrow> (Inr v, tr2)))
      else (Inl (FailedAfterRetries maxRetries lastErr), tr))"
  by pat_completeness auto
termination
  by (relation "measure (\<lambda>(w, name, i, lastErr, tr). maxRetries - i)") auto

declare getParameter_loop.simps [simp del]

definition getParameter :: "world \<Rightarrow> string \<Rightarrow> effect list \<Rightarrow> (error + string) \<times> effect list" where
  "getParameter w name tr = getParameter_loop w name 0 None tr"

text \<open>\<open>resolveSecret\<close>. \<open>SplitN\<close> with \<open>n = 2\<close> returns one or two parts; the empty list
  (where \<open>parts[0]\<close> would panic) cannot occur and is mapped to \<open>EmptyName\<close>.\<close>

definition resolveSecret :: "world \<Rightarrow> string \<Rightarrow> effect list \<Rightarrow> (error + string) \<times> effect list" where
  "resolveSecret w ref tr =
     (let trimmed = TrimPrefix ref secretPrefix in
      if trimmed = [] then (Inl EmptyReference, tr)
      else if HasPrefix trimmed ''/aws/reference/secretsmanager/'' then getParameter w trimmed tr
      else
        (case SplitN trimmed ''#'' 2 of
           [] \<Rightarrow> (Inl EmptyName, tr)
         | secretName # rest \<Rightarrow>
            if secretName = [] then (Inl EmptyName, tr)
            else
              (case getSecret w secretName tr of
                 (Inl err, tr') \<Rightarrow> (Inl err, tr')
               | (Inr secretValue, tr') \<Rightarrow>
                  (case rest of
                     [] \<Rightarrow> (Inr secretValue, tr')
                   | key # _ \<Rightarrow>
                      (case Unmarshal w secretValue of
                         Inl err \<Rightarrow> (Inl (NotJSON secretName err), tr')
                       | Inr parsed \<Rightarrow>
                          (case parsed key of
                             None \<Rightarrow> (Inl (KeyNotFound key secretName), tr')
                           | Some v \<Rightarrow> (Inr v, tr')))))))"

text \<open>The second loop of \<open>resolveSecrets\<close>. The result is Go's pair: the slice (nil is the
  empty list) and the error (\<open>None\<close> is nil).\<close>

fun resolveSecrets_loop ::
  "world \<Rightarrow> string list \<Rightarrow> string list \<Rightarrow> effect list \<Rightarrow> (string list \<times> error option) \<times> effect list"
where
  "resolveSecrets_loop w [] result tr = ((result, None), tr)"
| "resolveSecrets_loop w (e # es) result tr =
     (case Cut e ''='' of
        (name, value, found) \<Rightarrow>
          if \<not> found then resolveSecrets_loop w es result tr
          else if HasPrefix value secretPrefix then
            (case resolveSecret w value tr of
               (Inl err, tr') \<Rightarrow> (([], Some (ResolveFailed name err)), tr')
             | (Inr resolved, tr') \<Rightarrow>
                 resolveSecrets_loop w es (result @ [name @ ''='' @ resolved]) tr')
          else resolveSecrets_loop w es (result @ [name @ ''='' @ value]) tr)"

definition resolveSecrets ::
  "world \<Rightarrow> string list \<Rightarrow> effect list \<Rightarrow> (string list \<times> error option) \<times> effect list"
where
  "resolveSecrets w env tr =
     (if \<not> list_ex (\<lambda>e. Contains e secretPrefix) env then ((env, None), tr)
      else
        (case LoadDefaultConfig w tr of
           Some err \<Rightarrow> (([], Some (LoadConfigFailed err)), tr @ [LoadConfig])
         | None \<Rightarrow> resolveSecrets_loop w env [] (tr @ [LoadConfig, NewClients])))"

section \<open>The process supervisor\<close>

subsection \<open>Signals, the kernel and the log\<close>

text \<open>The signals the program names, and one it does not handle. An \<open>os.Signal\<close> is an
  interface value: a \<open>syscall.Signal\<close>, or something else.\<close>

datatype signal = SIGHUP | SIGINT | SIGQUIT | SIGKILL | SIGUSR1 | SIGUSR2 | SIGTERM

datatype os_signal = Sys signal | NotSyscall

datatype errno = ESRCH

text \<open>The lines the supervisor logs, one constructor for each \<open>log.Printf\<close> of the source
  with its arguments.\<close>

datatype log_line =
    LogFailedToStart string string
  | LogNoProcess
  | LogStarted string int
  | LogProcessFailed
  | LogForwarding os_signal int
  | LogTimeoutExpired int
  | LogKillPidFailed int errno
  | LogKillGroupFailed int errno
  | LogSignalGroupFailed int errno
  | LogSignalPidFailed int errno
  | LogIgnoring os_signal

text \<open>
  The state the signal handler and its timers act on. Times are in milliseconds.
  \<^item> \<open>now\<close> is the clock;
  \<^item> \<open>targets\<close> are the ids \<open>kill\<close> can reach: the pid while the child exists, the
    negated pid while its process group exists;
  \<^item> \<open>delivered\<close> records each signal the kernel delivered: when, to which id, which;
  \<^item> \<open>timers\<close> are the wake-up times of the goroutines sleeping in \<open>time.Sleep\<close>;
  \<^item> \<open>log\<close> is what has been logged.
\<close>

record sup_state =
  now :: nat
  targets :: "int list"
  delivered :: "(nat \<times> int \<times> signal) list"
  timers :: "nat list"
  log :: "log_line list"

text \<open>\<open>syscall.Kill\<close>: the signal is delivered when the target exists, and the call fails
  with \<open>ESRCH\<close> when it does not.\<close>

definition Kill :: "int \<Rightarrow> signal \<Rightarrow> sup_state \<Rightarrow> errno option \<times> sup_state" where
  "Kill target sig st =
     (if target \<in> set (targets st)
      then (None, st\<lparr>delivered := delivered st @ [(now st, target, sig)]\<rparr>)
      else (Some ESRCH, st))"


subsection \<open>Signal forwarding and the shutdown timer\<close>










subsection \<open>The wait status\<close>

text \<open>
  \<open>syscall.WaitStatus\<close> is a 32-bit word. \<open>Exited\<close>, \<open>Signaled\<close> and \<open>ExitStatus\<close> are the
  methods of package \<open>syscall\<close>: the low seven bits are zero for a normal exit, whose code
  is in the next byte, and hold the signal number for a child terminated by a signal;
  \<open>ExitStatus\<close> is \<open>-1\<close> for a child that did not exit normally.
\<close>

type_synonym WaitStatus = "32 word"

definition Exited :: "WaitStatus \<Rightarrow> bool" where
  "Exited w = (w AND 0x7F = 0)"

definition Signaled :: "WaitStatus \<Rightarrow> bool" where
  "Signaled w = (w AND 0x7F \<noteq> 0x7F \<and> w AND 0x7F \<noteq> 0)"

definition ExitStatus :: "WaitStatus \<Rightarrow> int" where
  "ExitStatus w = (if \<not> Exited w then - 1 else uint (drop_bit 8 w AND 0xFF))"

text \<open>The status the kernel reports for a child that called \<open>exit n\<close>, and for a child
  terminated by signal number \<open>s\<close>.\<close>

definition exited_with :: "nat \<Rightarrow> WaitStatus" where
  "exited_with n = push_bit 8 (word_of_nat (n mod 256))"

definition killed_by :: "nat \<Rightarrow> WaitStatus" where
  "killed_by s = word_of_nat (s mod 128)"

text \<open>
  The error of \<open>cmd.Wait\<close>: an \<open>*exec.ExitError\<close>, whose \<open>Sys()\<close> is a
  \<open>syscall.WaitStatus\<close> or something else, or any other error. \<open>cmd_Wait\<close> is \<open>Wait\<close> of
  package \<open>os/exec\<close>: the error of the system call if it failed, an \<open>ExitError\<close>
  carrying the status unless the child succeeded (exit status 0), nil otherwise.
\<close>

datatype sys_value = SysWaitStatus WaitStatus | SysOther

datatype wait_error = ExitError sys_value | OtherError string

datatype child_end = Reaped WaitStatus | WaitFailed string

definition cmd_Wait :: "child_end \<Rightarrow> wait_error option" where
  "cmd_Wait c =
     (case c of
        WaitFailed m \<Rightarrow> Some (OtherError m)
      | Reaped status \<Rightarrow>
          if ExitStatus status = 0 then None else Some (ExitError (SysWaitStatus status)))"

subsection \<open>Running the command\<close>

text \<open>
  What \<open>execute\<close> reads from outside: the result of \<open>cmd.Start\<close> (an error; no process
  information; the pid of the child), and how the wait for that child ends.
\<close>

record exec_world =
  cmd_Start :: "string \<Rightarrow> string list \<Rightarrow> string list \<Rightarrow> string + int option"
  child_ends :: "int \<Rightarrow> child_end"

datatype exec_effect =
    CmdStart string "string list" "string list"
  | Logged log_line
  | SignalNotify "signal list"
  | GoHandleSignals int
  | CmdWait int
  | SignalStop

definition execute ::
  "exec_world \<Rightarrow> string \<Rightarrow> string list \<Rightarrow> string list \<Rightarrow> int \<times> exec_effect list"
where
  "execute ow command args env =
     (case cmd_Start ow command args env of
        Inl err \<Rightarrow> (1, [CmdStart command args env, Logged (LogFailedToStart command err)])
      | Inr None \<Rightarrow> (1, [CmdStart command args env, Logged LogNoProcess])
      | Inr (Some pid) \<Rightarrow>
         (let done = [CmdStart command args env, Logged (LogStarted command pid),
                      SignalNotify [SIGTERM, SIGINT, SIGQUIT, SIGUSR1, SIGUSR2],
                      GoHandleSignals pid, CmdWait pid, SignalStop]
          in case cmd_Wait (child_ends ow pid) of
               None \<Rightarrow> (0, done)
             | Some (ExitError (SysWaitStatus status)) \<Rightarrow> (ExitStatus status, done)
             | Some (ExitError SysOther) \<Rightarrow> (1, done @ [Logged LogProcessFailed])
             | Some (OtherError m) \<Rightarrow> (1, done @ [Logged LogProcessFailed])))"

text \<open>Worlds for \<open>execute\<close>: the command starts as pid 7 and the child ends as given; the
  command cannot be started.\<close>

definition child_world :: "child_end \<Rightarrow> exec_world" where
  "child_world c = \<lparr> cmd_Start = (\<lambda>command args env. Inr (Some 7)), child_ends = (\<lambda>pid. c) \<rparr>"

definition no_such_command_world :: exec_world where
  "no_such_command_world =
     \<lparr> cmd_Start = (\<lambda>command args env. Inl ''executable file not found in $PATH''),
       child_ends = (\<lambda>pid. WaitFailed ''no child'') \<rparr>"

section \<open>Predicates used to state the properties\<close>

text \<open>An entry is well formed when it has the separator between key and value.\<close>

definition has_separator :: "string \<Rightarrow> bool" where
  "has_separator e = (CHR ''='' \<in> set e)"

text \<open>\<open>entry_resolved w e out_e\<close>: the output entry \<open>out_e\<close> is what the input entry \<open>e\<close>
  must become: an entry whose value begins with the prefix has its value replaced by a result
  of \<open>resolveSecret\<close> on that value, every other entry is unchanged.\<close>

definition entry_resolved :: "world \<Rightarrow> string \<Rightarrow> string \<Rightarrow> bool" where
  "entry_resolved w e out_e =
     (case Cut e ''='' of
        (name, value, found) \<Rightarrow>
          if found \<and> HasPrefix value secretPrefix
          then (\<exists>t t' resolved. resolveSecret w value t = (Inr resolved, t') \<and>
                  out_e = name @ ''='' @ resolved)
          else out_e = e)"

text \<open>\<open>entry_failed w e x tr'\<close>: the error \<open>x\<close> comes from the entry \<open>e\<close>: its value begins
  with the prefix, \<open>resolveSecret\<close> failed on it (leaving the trace \<open>tr'\<close>), and \<open>x\<close> wraps
  that failure under the entry's key.\<close>

definition entry_failed :: "world \<Rightarrow> string \<Rightarrow> error \<Rightarrow> effect list \<Rightarrow> bool" where
  "entry_failed w e x tr' =
     (case Cut e ''='' of
        (name, value, found) \<Rightarrow>
          found \<and> HasPrefix value secretPrefix \<and>
          (\<exists>t rerr. resolveSecret w value t = (Inl rerr, tr') \<and> x = ResolveFailed name rerr \<and>
             error_message x = ''failed to resolve '' @ name @ '': '' @ error_message rerr))"

section \<open>Concrete worlds\<close>

text \<open>A world where the configuration loads and every fetch fails at the transport level.\<close>

definition offline_world :: world where
  "offline_world =
     \<lparr> LoadDefaultConfig = (\<lambda>tr. None),
       GetSecretValue = (\<lambda>tr name. Inl (SdkError ''no route to host'')),
       GetParameter = (\<lambda>tr name dec. Inl (SdkError ''no route to host'')),
       ctx_Done = (\<lambda>tr d. None),
       Unmarshal = (\<lambda>s. Inl (JsonError ''unexpected end of JSON input'')) \<rparr>"

text \<open>A world with one JSON secret, one plain text secret, one binary secret (no
  \<open>SecretString\<close>) and one parameter; \<open>Unmarshal\<close> accepts the text of the JSON secret
  only.\<close>

definition example_json :: string where
  \<open>example_json = ''{"database_url":"postgres://localhost","api_key":"secret123"}''\<close>

definition demo_world :: world where
  "demo_world =
     \<lparr> LoadDefaultConfig = (\<lambda>tr. None),
       GetSecretValue = (\<lambda>tr name.
          if name = ''myapp/prod'' then Inr (Some example_json)
          else if name = ''myapp/api'' then Inr (Some ''plain-text-secret'')
          else if name = ''myapp/blob'' then Inr None
          else Inl (SdkError ''ResourceNotFoundException'')),
       GetParameter = (\<lambda>tr name dec.
          if name = ''/aws/reference/secretsmanager/myapp/token'' \<and> dec
          then Inr (Some (Some ''token-value''))
          else Inl (SdkError ''ParameterNotFound'')),
       ctx_Done = (\<lambda>tr d. None),
       Unmarshal = (\<lambda>s.
          if s = example_json
          then Inr [''database_url'' \<mapsto> ''postgres://localhost'', ''api_key'' \<mapsto> ''secret123'']
          else Inl (JsonError ''invalid character'')) \<rparr>"

text \<open>A world whose first answer to each fetch carries no value, and whose later answers
  would carry one.\<close>

definition nil_first_world :: world where
  "nil_first_world =
     \<lparr> LoadDefaultConfig = (\<lambda>tr. None),
       GetSecretValue = (\<lambda>tr name.
          if CallGetSecretValue name \<in> set tr then Inr (Some ''value'') else Inr None),
       GetParameter = (\<lambda>tr name dec.
          if CallGetParameter name dec \<in> set tr then Inr (Some (Some ''value''))
          else Inr (Some None)),
       ctx_Done = (\<lambda>tr d. None),
       Unmarshal = (\<lambda>s. Inl (JsonError ''invalid character'')) \<rparr>"

text \<open>A world where every fetch fails and the context is done during every wait.\<close>

definition expired_world :: world where
  "expired_world =
     \<lparr> LoadDefaultConfig = (\<lambda>tr. None),
       GetSecretValue = (\<lambda>tr name. Inl (SdkError ''request timeout'')),
       GetParameter = (\<lambda>tr name dec. Inl (SdkError ''request timeout'')),
       ctx_Done = (\<lambda>tr d. Some (ContextError DeadlineExceeded)),
       Unmarshal = (\<lambda>s. Inl (JsonError ''invalid character'')) \<rparr>"

text \<open>A world where every fetch fails and the context is done during the second wait only.\<close>

definition late_expiry_world :: world where
  "late_expiry_world =
     \<lparr> LoadDefaultConfig = (\<lambda>tr. None),
       GetSecretValue = (\<lambda>tr name. Inl (SdkError ''request timeout'')),
       GetParameter = (\<lambda>tr name dec. Inl (SdkError ''request timeout'')),
       ctx_Done = (\<lambda>tr d. if d = 200 then Some (ContextError Canceled) else None),
       Unmarshal = (\<lambda>s. Inl (JsonError ''invalid character'')) \<rparr>"

text \<open>A world whose first answer to each fetch is a transport error and whose later answers
  carry no value.\<close>

definition fail_then_nil_world :: world where
  "fail_then_nil_world =
     \<lparr> LoadDefaultConfig = (\<lambda>tr. None),
       GetSecretValue = (\<lambda>tr name.
          if CallGetSecretValue name \<in> set tr then Inr None else Inl (SdkError ''throttled'')),
       GetParameter = (\<lambda>tr name dec.
          if CallGetParameter name dec \<in> set tr then Inr None else Inl (SdkError ''throttled'')),
       ctx_Done = (\<lambda>tr d. None),
       Unmarshal = (\<lambda>s. Inl (JsonError ''invalid character'')) \<rparr>"

text \<open>A world whose first two answers to each fetch are transport errors and whose later
  answers carry no value.\<close>

definition fail_twice_then_nil_world :: world where
  "fail_twice_then_nil_world =
     \<lparr> LoadDefaultConfig = (\<lambda>tr. None),
       GetSecretValue = (\<lambda>tr name.
          if 2 \<le> length (filter (\<lambda>e. e = CallGetSecretValue name) tr) then Inr None
          else Inl (SdkError ''throttled'')),
       GetParameter = (\<lambda>tr name dec.
          if 2 \<le> length (filter (\<lambda>e. e = CallGetParameter name dec) tr) then Inr (Some None)
          else Inl (SdkError ''throttled'')),
       ctx_Done = (\<lambda>tr d. None),
       Unmarshal = (\<lambda>s. Inl (JsonError ''invalid character'')) \<rparr>"

text \<open>A world with a plain text secret, where \<open>json.Unmarshal\<close> fails the way the Go
  library does on such a text: its syntax error quotes the offending character.\<close>

definition leaky_json_world :: world where
  "leaky_json_world =
     \<lparr> LoadDefaultConfig = (\<lambda>tr. None),
       GetSecretValue = (\<lambda>tr name. Inr (Some ''plain-text-secret'')),
       GetParameter = (\<lambda>tr name dec. Inl (SdkError ''ParameterNotFound'')),
       ctx_Done = (\<lambda>tr d. None),
       Unmarshal = (\<lambda>s.
          Inl (JsonError
            (''invalid character '' @ [CHR 0x27] @ take 1 s @ [CHR 0x27] @
             '' looking for beginning of value''))) \<rparr>"

section \<open>Facts about the string functions\<close>

lemma HasPrefix_iff: "HasPrefix s p \<longleftrightarrow> (\<exists>t. s = p @ t)"
  by (induction s p rule: HasPrefix.induct) auto

lemma HasPrefix_append [simp]: "HasPrefix (p @ t) p"
  by (simp add: HasPrefix_iff)

lemma TrimPrefix_append [simp]: "TrimPrefix (p @ t) p = t"
  by (simp add: TrimPrefix_def)

lemma Index_SomeD:
  "Index s sep = Some i \<Longrightarrow> i \<le> length s \<and> HasPrefix (drop i s) sep"
proof (induction s arbitrary: i)
  case Nil
  then show ?case by (auto split: if_splits)
next
  case (Cons c cs)
  then show ?case by (auto split: if_splits)
qed

lemma Index_None_iff: "Index s sep = None \<longleftrightarrow> (\<forall>a b. s \<noteq> a @ sep @ b)"
proof (induction s)
  case Nil
  then show ?case by (auto simp: HasPrefix_iff)
next
  case (Cons c cs)
  show ?case
  proof
    assume h: "Index (c # cs) sep = None"
    then have np: "\<not> HasPrefix (c # cs) sep" and r: "Index cs sep = None"
      by (auto split: if_splits)
    show "\<forall>a b. c # cs \<noteq> a @ sep @ b"
    proof (intro allI notI)
      fix a b assume e: "c # cs = a @ sep @ b"
      show False
      proof (cases a)
        case Nil
        with e np show False by (simp add: HasPrefix_iff)
      next
        case (Cons x xs)
        with e have "cs = xs @ sep @ b" by simp
        with r Cons.IH show False by blast
      qed
    qed
  next
    assume h: "\<forall>a b. c # cs \<noteq> a @ sep @ b"
    then have np: "\<not> HasPrefix (c # cs) sep"
      by (metis HasPrefix_iff append_Nil)
    have "\<forall>a b. cs \<noteq> a @ sep @ b"
    proof (intro allI notI)
      fix a b assume "cs = a @ sep @ b"
      then have "c # cs = (c # a) @ sep @ b" by simp
      with h show False by blast
    qed
    with Cons.IH np show "Index (c # cs) sep = None" by simp
  qed
qed

lemma Contains_iff: "Contains s sub \<longleftrightarrow> (\<exists>a b. s = a @ sub @ b)"
  by (simp add: Contains_def Index_None_iff)

lemma Index_char_None_iff: "Index s [c] = None \<longleftrightarrow> c \<notin> set s"
  by (induction s) auto

lemma Cut_join: "Cut e sep = (n, v, True) \<Longrightarrow> n @ sep @ v = e"
proof -
  assume h: "Cut e sep = (n, v, True)"
  then obtain i where i: "Index e sep = Some i" and n: "n = take i e" and v: "v = drop (i + length sep) e"
    by (auto simp: Cut_def split: option.splits)
  from Index_SomeD[OF i] obtain t where t: "drop i e = sep @ t" by (auto simp: HasPrefix_iff)
  have "v = drop (length sep) (drop i e)" using v by (simp add: add.commute)
  with t have "v = t" by simp
  with t n show ?thesis by (metis append_take_drop_id)
qed

lemma Cut_found_iff: "snd (snd (Cut e [c])) \<longleftrightarrow> c \<in> set e"
  using Index_char_None_iff[of e c] by (auto simp: Cut_def split: option.splits)

lemma Cut_not_found: "c \<notin> set e \<Longrightarrow> Cut e [c] = (e, [], False)"
  by (simp add: Cut_def Index_char_None_iff[THEN iffD2])

lemma SplitN2_nohash: "c \<notin> set s \<Longrightarrow> SplitN s [c] 2 = [s]"
  by (simp add: numeral_2_eq_2 Index_char_None_iff[THEN iffD2])

lemma Index_char_first: "c \<notin> set a \<Longrightarrow> Index (a @ c # b) [c] = Some (length a)"
  by (induction a) auto

lemma SplitN2_hash: "c \<notin> set a \<Longrightarrow> SplitN (a @ c # b) [c] 2 = [a, b]"
  by (simp add: numeral_2_eq_2 Index_char_first)

section \<open>Facts about the loop of \<open>resolveSecrets\<close>\<close>

lemma Cut_cases:
  obtains (malformed) "\<not> has_separator e" "Cut e ''='' = (e, [], False)"
  | (wellformed) n v where "has_separator e" "Cut e ''='' = (n, v, True)" "n @ ''='' @ v = e"
proof (cases "has_separator e")
  case False
  then show ?thesis using malformed Cut_not_found[of "CHR ''=''" e] by (simp add: has_separator_def)
next
  case True
  obtain n v f where c: "Cut e ''='' = (n, v, f)" by (cases "Cut e ''=''") auto
  with True Cut_found_iff[of e "CHR ''=''"] have "f" by (simp add: has_separator_def)
  with c Cut_join[of e "''=''" n v] True show ?thesis using wellformed by auto
qed

lemma loop_success:
  "resolveSecrets_loop w es acc tr = ((out, None), tr') \<Longrightarrow>
     \<exists>out'. out = acc @ out' \<and> list_all2 (entry_resolved w) (filter has_separator es) out'"
proof (induction es arbitrary: acc tr)
  case Nil
  then show ?case by simp
next
  case (Cons e es)
  show ?case
  proof (cases e rule: Cut_cases)
    case malformed
    with Cons.prems have "resolveSecrets_loop w es acc tr = ((out, None), tr')" by simp
    from Cons.IH[OF this] malformed show ?thesis by simp
  next
    case (wellformed n v)
    show ?thesis
    proof (cases "HasPrefix v secretPrefix")
      case False
      with wellformed Cons.prems
      have "resolveSecrets_loop w es (acc @ [e]) tr = ((out, None), tr')" by simp
      from Cons.IH[OF this] obtain out' where
        o: "out = (acc @ [e]) @ out'" "list_all2 (entry_resolved w) (filter has_separator es) out'"
        by blast
      have "entry_resolved w e e" using wellformed False by (simp add: entry_resolved_def)
      with o wellformed show ?thesis by simp
    next
      case True
      obtain r t1 where rs: "resolveSecret w v tr = (r, t1)" by (cases "resolveSecret w v tr") auto
      show ?thesis
      proof (cases r)
        case (Inl err)
        with rs wellformed True Cons.prems show ?thesis by simp
      next
        case (Inr resolved)
        with rs wellformed True Cons.prems
        have "resolveSecrets_loop w es (acc @ [n @ ''='' @ resolved]) t1 = ((out, None), tr')"
          by simp
        from Cons.IH[OF this] obtain out' where
          o: "out = (acc @ [n @ ''='' @ resolved]) @ out'"
             "list_all2 (entry_resolved w) (filter has_separator es) out'"
          by blast
        have "entry_resolved w e (n @ ''='' @ resolved)"
          using wellformed True rs Inr by (auto simp: entry_resolved_def)
        with o wellformed show ?thesis by simp
      qed
    qed
  qed
qed

lemma loop_error:
  "resolveSecrets_loop w es acc tr = ((out, Some x), tr') \<Longrightarrow>
     out = [] \<and> list_ex (\<lambda>e. entry_failed w e x tr') es"
proof (induction es arbitrary: acc tr)
  case Nil
  then show ?case by simp
next
  case (Cons e es)
  show ?case
  proof (cases e rule: Cut_cases)
    case malformed
    with Cons.prems have "resolveSecrets_loop w es acc tr = ((out, Some x), tr')" by simp
    from Cons.IH[OF this] show ?thesis by simp
  next
    case (wellformed n v)
    show ?thesis
    proof (cases "HasPrefix v secretPrefix")
      case False
      with wellformed Cons.prems
      have "resolveSecrets_loop w es (acc @ [e]) tr = ((out, Some x), tr')" by simp
      from Cons.IH[OF this] show ?thesis by simp
    next
      case True
      obtain r t1 where rs: "resolveSecret w v tr = (r, t1)" by (cases "resolveSecret w v tr") auto
      show ?thesis
      proof (cases r)
        case (Inl err)
        with rs wellformed True Cons.prems
        have "out = []" "x = ResolveFailed n err" "t1 = tr'" by simp_all
        moreover from this rs Inl wellformed True have "entry_failed w e x tr'"
          unfolding entry_failed_def by auto
        ultimately show ?thesis by simp
      next
        case (Inr resolved)
        with rs wellformed True Cons.prems
        have "resolveSecrets_loop w es (acc @ [n @ ''='' @ resolved]) t1 = ((out, Some x), tr')"
          by simp
        from Cons.IH[OF this] show ?thesis by simp
      qed
    qed
  qed
qed

lemma loop_filter:
  "resolveSecrets_loop w (filter has_separator es) acc tr = resolveSecrets_loop w es acc tr"
proof (induction es arbitrary: acc tr)
  case Nil
  then show ?case by simp
next
  case (Cons e es)
  show ?case
  proof (cases e rule: Cut_cases)
    case malformed
    then show ?thesis using Cons.IH by simp
  next
    case (wellformed n v)
    then show ?thesis using Cons.IH by (simp split: prod.splits sum.splits)
  qed
qed

lemma value_prefix_Contains:
  "Cut e ''='' = (n, v, True) \<Longrightarrow> HasPrefix v secretPrefix \<Longrightarrow> Contains e secretPrefix"
proof -
  assume c: "Cut e ''='' = (n, v, True)" and h: "HasPrefix v secretPrefix"
  from h obtain t where "v = secretPrefix @ t" by (auto simp: HasPrefix_iff)
  with Cut_join[OF c] have "e = (n @ ''='') @ secretPrefix @ t" by simp
  then show ?thesis unfolding Contains_iff by blast
qed

lemma entry_resolved_plain:
  "\<not> Contains e secretPrefix \<Longrightarrow> entry_resolved w e e"
  using value_prefix_Contains[of e]
  by (cases e rule: Cut_cases) (auto simp: entry_resolved_def)

lemma entry_resolved_separator:
  "entry_resolved w e o' \<Longrightarrow> has_separator e \<Longrightarrow> has_separator o'"
  by (cases e rule: Cut_cases) (auto simp: entry_resolved_def has_separator_def split: if_splits)

lemma list_all2_separator_gen:
  "list_all2 (entry_resolved w) xs out \<Longrightarrow> list_all has_separator xs \<Longrightarrow> list_all has_separator out"
proof (induction rule: list_all2_induct)
  case Nil
  then show ?case by simp
next
  case (Cons x xs y ys)
  from Cons.prems have hx: "has_separator x" and hxs: "list_all has_separator xs" by simp_all
  from entry_resolved_separator[OF Cons.hyps(1) hx] Cons.IH[OF hxs] show ?case by simp
qed

lemma list_all2_separator:
  "list_all2 (entry_resolved w) (filter has_separator es) out \<Longrightarrow> \<forall>o'\<in>set out. has_separator o'"
proof -
  assume a: "list_all2 (entry_resolved w) (filter has_separator es) out"
  have "list_all has_separator (filter has_separator es)" by (simp add: list_all_iff)
  from list_all2_separator_gen[OF a this] show ?thesis by (simp add: list_all_iff)
qed

lemma list_ex_Contains_iff:
  "list_ex (\<lambda>e. Contains e secretPrefix) env \<longleftrightarrow> (\<exists>e\<in>set env. \<exists>a b. e = a @ secretPrefix @ b)"
  by (simp add: list_ex_iff Contains_iff)

lemma loop_outputs_separator:
  "resolveSecrets_loop w env [] tr = ((out, err), tr') \<Longrightarrow> \<forall>o'\<in>set out. has_separator o'"
proof (cases err)
  case None
  assume "resolveSecrets_loop w env [] tr = ((out, err), tr')"
  from loop_success[OF this[unfolded None]] show ?thesis
    using list_all2_separator[of w env out] by simp
next
  case (Some x)
  assume "resolveSecrets_loop w env [] tr = ((out, err), tr')"
  from loop_error[OF this[unfolded Some]] show ?thesis by simp
qed

lemma offline_world_simps:
  "LoadDefaultConfig offline_world tr = None"
  "GetSecretValue offline_world tr name = Inl (SdkError ''no route to host'')"
  "GetParameter offline_world tr name dec = Inl (SdkError ''no route to host'')"
  "ctx_Done offline_world tr d = None"
  by (simp_all add: offline_world_def)

lemma resolveSecrets_slow:
  "list_ex (\<lambda>e. Contains e secretPrefix) env \<Longrightarrow> LoadDefaultConfig w tr = None \<Longrightarrow>
   resolveSecrets w env tr = resolveSecrets_loop w env [] (tr @ [LoadConfig, NewClients])"
  by (simp add: resolveSecrets_def)

lemma resolveSecrets_fast:
  "\<not> list_ex (\<lambda>e. Contains e secretPrefix) env \<Longrightarrow> resolveSecrets w env tr = ((env, None), tr)"
  by (simp add: resolveSecrets_def)

lemma resolveSecrets_config_failed:
  "list_ex (\<lambda>e. Contains e secretPrefix) env \<Longrightarrow> LoadDefaultConfig w tr = Some c \<Longrightarrow>
   resolveSecrets w env tr = (([], Some (LoadConfigFailed c)), tr @ [LoadConfig])"
  by (simp add: resolveSecrets_def)

lemma expired_world_simps:
  "LoadDefaultConfig expired_world tr = None"
  "GetSecretValue expired_world tr name = Inl (SdkError ''request timeout'')"
  "GetParameter expired_world tr name dec = Inl (SdkError ''request timeout'')"
  "ctx_Done expired_world tr d = Some (ContextError DeadlineExceeded)"
  by (simp_all add: expired_world_def)

lemma late_expiry_world_simps:
  "LoadDefaultConfig late_expiry_world tr = None"
  "GetSecretValue late_expiry_world tr name = Inl (SdkError ''request timeout'')"
  "GetParameter late_expiry_world tr name dec = Inl (SdkError ''request timeout'')"
  "ctx_Done late_expiry_world tr 100 = None"
  "ctx_Done late_expiry_world tr 200 = Some (ContextError Canceled)"
  by (simp_all add: late_expiry_world_def)

lemma nil_first_world_simps:
  "GetSecretValue nil_first_world tr name =
     (if CallGetSecretValue name \<in> set tr then Inr (Some ''value'') else Inr None)"
  "GetParameter nil_first_world tr name dec =
     (if CallGetParameter name dec \<in> set tr then Inr (Some (Some ''value'')) else Inr (Some None))"
  "ctx_Done nil_first_world tr d = None"
  by (simp_all add: nil_first_world_def)

lemma fail_then_nil_world_simps:
  "GetSecretValue fail_then_nil_world tr name =
     (if CallGetSecretValue name \<in> set tr then Inr None else Inl (SdkError ''throttled''))"
  "GetParameter fail_then_nil_world tr name dec =
     (if CallGetParameter name dec \<in> set tr then Inr None else Inl (SdkError ''throttled''))"
  "ctx_Done fail_then_nil_world tr d = None"
  by (simp_all add: fail_then_nil_world_def)

lemma fail_twice_then_nil_world_simps:
  "GetSecretValue fail_twice_then_nil_world tr name =
     (if 2 \<le> length (filter (\<lambda>e. e = CallGetSecretValue name) tr) then Inr None
      else Inl (SdkError ''throttled''))"
  "GetParameter fail_twice_then_nil_world tr name dec =
     (if 2 \<le> length (filter (\<lambda>e. e = CallGetParameter name dec) tr) then Inr (Some None)
      else Inl (SdkError ''throttled''))"
  "ctx_Done fail_twice_then_nil_world tr d = None"
  by (simp_all add: fail_twice_then_nil_world_def)

section \<open>The fetch loops, step by step\<close>

lemma getSecret_loop_first:
  "getSecret_loop w name 0 lastErr tr =
     (case GetSecretValue w tr name of
        Inl err \<Rightarrow> getSecret_loop w name 1 (Some err) (tr @ [CallGetSecretValue name])
      | Inr None \<Rightarrow> (Inl BinaryNotSupported, tr @ [CallGetSecretValue name])
      | Inr (Some s) \<Rightarrow> (Inr s, tr @ [CallGetSecretValue name]))"
  by (subst getSecret_loop.simps) (simp add: maxRetries_def Let_def split: option.split sum.split)

lemma getSecret_loop_retry:
  "0 < i \<Longrightarrow> i < 3 \<Longrightarrow>
   getSecret_loop w name i lastErr tr =
     (case ctx_Done w tr (100 * i) of
        Some cerr \<Rightarrow> (Inl cerr, tr @ [CtxDoneDuring (100 * i)])
      | None \<Rightarrow>
         (case GetSecretValue w (tr @ [TimerElapsed (100 * i)]) name of
            Inl err \<Rightarrow>
              getSecret_loop w name (i + 1) (Some err)
                (tr @ [TimerElapsed (100 * i), CallGetSecretValue name])
          | Inr None \<Rightarrow>
              (Inl BinaryNotSupported, tr @ [TimerElapsed (100 * i), CallGetSecretValue name])
          | Inr (Some s) \<Rightarrow> (Inr s, tr @ [TimerElapsed (100 * i), CallGetSecretValue name])))"
  by (subst getSecret_loop.simps) (simp add: maxRetries_def retryDelay_def Let_def split: option.split sum.split)

lemma getSecret_loop_exhausted:
  "getSecret_loop w name 3 lastErr tr = (Inl (FailedAfterRetries 3 lastErr), tr)"
  by (subst getSecret_loop.simps) (simp add: maxRetries_def Let_def split: option.split sum.split)

lemma getParameter_loop_first:
  "getParameter_loop w name 0 lastErr tr =
     (case GetParameter w tr name True of
        Inl err \<Rightarrow> getParameter_loop w name 1 (Some err) (tr @ [CallGetParameter name True])
      | Inr None \<Rightarrow> (Inl ParameterNoValue, tr @ [CallGetParameter name True])
      | Inr (Some None) \<Rightarrow> (Inl ParameterNoValue, tr @ [CallGetParameter name True])
      | Inr (Some (Some v)) \<Rightarrow> (Inr v, tr @ [CallGetParameter name True]))"
  by (subst getParameter_loop.simps) (simp add: maxRetries_def Let_def split: option.split sum.split)

lemma getParameter_loop_retry:
  "0 < i \<Longrightarrow> i < 3 \<Longrightarrow>
   getParameter_loop w name i lastErr tr =
     (case ctx_Done w tr (100 * i) of
        Some cerr \<Rightarrow> (Inl cerr, tr @ [CtxDoneDuring (100 * i)])
      | None \<Rightarrow>
         (case GetParameter w (tr @ [TimerElapsed (100 * i)]) name True of
            Inl err \<Rightarrow>
              getParameter_loop w name (i + 1) (Some err)
                (tr @ [TimerElapsed (100 * i), CallGetParameter name True])
          | Inr None \<Rightarrow>
              (Inl ParameterNoValue, tr @ [TimerElapsed (100 * i), CallGetParameter name True])
          | Inr (Some None) \<Rightarrow>
              (Inl ParameterNoValue, tr @ [TimerElapsed (100 * i), CallGetParameter name True])
          | Inr (Some (Some v)) \<Rightarrow>
              (Inr v, tr @ [TimerElapsed (100 * i), CallGetParameter name True])))"
  by (subst getParameter_loop.simps) (simp add: maxRetries_def retryDelay_def Let_def split: option.split sum.split)

lemma getParameter_loop_exhausted:
  "getParameter_loop w name 3 lastErr tr = (Inl (FailedAfterRetries 3 lastErr), tr)"
  by (subst getParameter_loop.simps) (simp add: maxRetries_def Let_def split: option.split sum.split)


lemmas getSecret_loop_1 = getSecret_loop_first[unfolded One_nat_def]
lemmas getSecret_loop_2 = getSecret_loop_retry[of "Suc 0", simplified]
lemmas getSecret_loop_3 = getSecret_loop_retry[of "Suc (Suc 0)", simplified]
lemmas getSecret_loop_4 = getSecret_loop_exhausted[unfolded numeral_3_eq_3]
lemmas getParameter_loop_1 = getParameter_loop_first[unfolded One_nat_def]
lemmas getParameter_loop_2 = getParameter_loop_retry[of "Suc 0", simplified]
lemmas getParameter_loop_3 = getParameter_loop_retry[of "Suc (Suc 0)", simplified]
lemmas getParameter_loop_4 = getParameter_loop_exhausted[unfolded numeral_3_eq_3]

lemma getSecret_unrolled:
  "getSecret w name tr =
     (case GetSecretValue w tr name of
        Inr None \<Rightarrow> (Inl BinaryNotSupported, tr @ [CallGetSecretValue name])
      | Inr (Some s) \<Rightarrow> (Inr s, tr @ [CallGetSecretValue name])
      | Inl e1 \<Rightarrow>
         (case ctx_Done w (tr @ [CallGetSecretValue name]) 100 of
            Some cerr \<Rightarrow> (Inl cerr, tr @ [CallGetSecretValue name, CtxDoneDuring 100])
          | None \<Rightarrow>
             (case GetSecretValue w (tr @ [CallGetSecretValue name, TimerElapsed 100]) name of
                Inr None \<Rightarrow>
                  (Inl BinaryNotSupported,
                   tr @ [CallGetSecretValue name, TimerElapsed 100, CallGetSecretValue name])
              | Inr (Some s) \<Rightarrow>
                  (Inr s, tr @ [CallGetSecretValue name, TimerElapsed 100, CallGetSecretValue name])
              | Inl e2 \<Rightarrow>
                 (case ctx_Done w
                         (tr @ [CallGetSecretValue name, TimerElapsed 100, CallGetSecretValue name])
                         200 of
                    Some cerr \<Rightarrow>
                      (Inl cerr,
                       tr @ [CallGetSecretValue name, TimerElapsed 100, CallGetSecretValue name,
                             CtxDoneDuring 200])
                  | None \<Rightarrow>
                     (case GetSecretValue w
                             (tr @ [CallGetSecretValue name, TimerElapsed 100,
                                    CallGetSecretValue name, TimerElapsed 200]) name of
                        Inr None \<Rightarrow>
                          (Inl BinaryNotSupported,
                           tr @ [CallGetSecretValue name, TimerElapsed 100, CallGetSecretValue name,
                                 TimerElapsed 200, CallGetSecretValue name])
                      | Inr (Some s) \<Rightarrow>
                          (Inr s,
                           tr @ [CallGetSecretValue name, TimerElapsed 100, CallGetSecretValue name,
                                 TimerElapsed 200, CallGetSecretValue name])
                      | Inl e3 \<Rightarrow>
                          (Inl (FailedAfterRetries 3 (Some e3)),
                           tr @ [CallGetSecretValue name, TimerElapsed 100, CallGetSecretValue name,
                                 TimerElapsed 200, CallGetSecretValue name]))))))"
  by (simp add: getSecret_def getSecret_loop_1 getSecret_loop_2 getSecret_loop_3 getSecret_loop_4
      split: sum.split option.split)

lemma getParameter_unrolled:
  "getParameter w name tr =
     (case GetParameter w tr name True of
        Inr None \<Rightarrow> (Inl ParameterNoValue, tr @ [CallGetParameter name True])
      | Inr (Some None) \<Rightarrow> (Inl ParameterNoValue, tr @ [CallGetParameter name True])
      | Inr (Some (Some v)) \<Rightarrow> (Inr v, tr @ [CallGetParameter name True])
      | Inl e1 \<Rightarrow>
         (case ctx_Done w (tr @ [CallGetParameter name True]) 100 of
            Some cerr \<Rightarrow> (Inl cerr, tr @ [CallGetParameter name True, CtxDoneDuring 100])
          | None \<Rightarrow>
             (case GetParameter w (tr @ [CallGetParameter name True, TimerElapsed 100]) name True of
                Inr None \<Rightarrow>
                  (Inl ParameterNoValue,
                   tr @ [CallGetParameter name True, TimerElapsed 100, CallGetParameter name True])
              | Inr (Some None) \<Rightarrow>
                  (Inl ParameterNoValue,
                   tr @ [CallGetParameter name True, TimerElapsed 100, CallGetParameter name True])
              | Inr (Some (Some v)) \<Rightarrow>
                  (Inr v,
                   tr @ [CallGetParameter name True, TimerElapsed 100, CallGetParameter name True])
              | Inl e2 \<Rightarrow>
                 (case ctx_Done w
                         (tr @ [CallGetParameter name True, TimerElapsed 100,
                                CallGetParameter name True])
                         200 of
                    Some cerr \<Rightarrow>
                      (Inl cerr,
                       tr @ [CallGetParameter name True, TimerElapsed 100,
                             CallGetParameter name True, CtxDoneDuring 200])
                  | None \<Rightarrow>
                     (case GetParameter w
                             (tr @ [CallGetParameter name True, TimerElapsed 100,
                                    CallGetParameter name True, TimerElapsed 200]) name True of
                        Inr None \<Rightarrow>
                          (Inl ParameterNoValue,
                           tr @ [CallGetParameter name True, TimerElapsed 100,
                                 CallGetParameter name True, TimerElapsed 200,
                                 CallGetParameter name True])
                      | Inr (Some None) \<Rightarrow>
                          (Inl ParameterNoValue,
                           tr @ [CallGetParameter name True, TimerElapsed 100,
                                 CallGetParameter name True, TimerElapsed 200,
                                 CallGetParameter name True])
                      | Inr (Some (Some v)) \<Rightarrow>
                          (Inr v,
                           tr @ [CallGetParameter name True, TimerElapsed 100,
                                 CallGetParameter name True, TimerElapsed 200,
                                 CallGetParameter name True])
                      | Inl e3 \<Rightarrow>
                          (Inl (FailedAfterRetries 3 (Some e3)),
                           tr @ [CallGetParameter name True, TimerElapsed 100,
                                 CallGetParameter name True, TimerElapsed 200,
                                 CallGetParameter name True]))))))"
  by (simp add: getParameter_def getParameter_loop_1 getParameter_loop_2 getParameter_loop_3
        getParameter_loop_4
      split: sum.split option.split)

lemma show_nat_3: "show_nat 3 = ''3''"
  by code_simp

section \<open>Facts about \<open>resolveSecret\<close>\<close>

lemma TrimPrefix_self [simp]: "TrimPrefix p p = []"
  using TrimPrefix_append[of p "[]"] by simp

lemma resolveSecret_empty:
  "resolveSecret w secretPrefix tr = (Inl EmptyReference, tr)"
  by (simp add: resolveSecret_def)

lemma resolveSecret_parameter:
  "rem \<noteq> [] \<Longrightarrow> HasPrefix rem ''/aws/reference/secretsmanager/'' \<Longrightarrow>
   resolveSecret w (secretPrefix @ rem) tr = getParameter w rem tr"
  by (simp add: resolveSecret_def)

lemma resolveSecret_plain:
  assumes "rem \<noteq> []" "\<not> HasPrefix rem ''/aws/reference/secretsmanager/''"
    "CHR ''#'' \<notin> set rem"
  shows "resolveSecret w (secretPrefix @ rem) tr = getSecret w rem tr"
proof -
  have s: "SplitN rem ''#'' 2 = [rem]" using assms(3) by (rule SplitN2_nohash)
  obtain r t where g: "getSecret w rem tr = (r, t)" by (cases "getSecret w rem tr") auto
  show ?thesis
    using assms(1,2) s g by (cases r) (simp_all add: resolveSecret_def)
qed

lemma resolveSecret_empty_name:
  "resolveSecret w (secretPrefix @ ''#'' @ key) tr = (Inl EmptyName, tr)"
proof -
  have s: "SplitN (''#'' @ key) ''#'' 2 = [[], key]"
    using SplitN2_hash[of "CHR ''#''" "[]" key] by simp
  then show ?thesis by (simp add: resolveSecret_def)
qed

lemma resolveSecret_keyed:
  assumes "CHR ''#'' \<notin> set name" "name \<noteq> []"
    "\<not> HasPrefix (name @ ''#'' @ key) ''/aws/reference/secretsmanager/''"
  shows "resolveSecret w (secretPrefix @ name @ ''#'' @ key) tr =
     (case getSecret w name tr of
        (Inl err, tr') \<Rightarrow> (Inl err, tr')
      | (Inr secretValue, tr') \<Rightarrow>
         (case Unmarshal w secretValue of
            Inl err \<Rightarrow> (Inl (NotJSON name err), tr')
          | Inr parsed \<Rightarrow>
             (case parsed key of
                None \<Rightarrow> (Inl (KeyNotFound key name), tr')
              | Some v \<Rightarrow> (Inr v, tr'))))"
proof -
  have s: "SplitN (name @ ''#'' @ key) ''#'' 2 = [name, key]"
    using SplitN2_hash[OF assms(1), of key] by simp
  show ?thesis
    using assms(2,3) s by (simp add: resolveSecret_def split: prod.split sum.split)
qed

section \<open>Evaluation in the concrete worlds\<close>

lemma demo_world_simps:
  "LoadDefaultConfig demo_world tr = None"
  "GetSecretValue demo_world tr ''myapp/prod'' = Inr (Some example_json)"
  "GetSecretValue demo_world tr ''myapp/api'' = Inr (Some ''plain-text-secret'')"
  "GetParameter demo_world tr ''/aws/reference/secretsmanager/myapp/token'' True =
     Inr (Some (Some ''token-value''))"
  "ctx_Done demo_world tr d = None"
  "Unmarshal demo_world example_json =
     Inr [''database_url'' \<mapsto> ''postgres://localhost'', ''api_key'' \<mapsto> ''secret123'']"
  by (simp_all add: demo_world_def)

lemma demo_world_not_json:
  "Unmarshal demo_world ''plain-text-secret'' = Inl (JsonError ''invalid character'')"
  by (simp add: demo_world_def example_json_def)

lemma demo_getSecret_prod:
  "getSecret demo_world ''myapp/prod'' tr = (Inr example_json, tr @ [CallGetSecretValue ''myapp/prod''])"
  by (simp add: getSecret_unrolled demo_world_simps)

lemma demo_getSecret_api:
  "getSecret demo_world ''myapp/api'' tr =
     (Inr ''plain-text-secret'', tr @ [CallGetSecretValue ''myapp/api''])"
  by (simp add: getSecret_unrolled demo_world_simps)

lemma demo_getParameter_token:
  "getParameter demo_world ''/aws/reference/secretsmanager/myapp/token'' tr =
     (Inr ''token-value'', tr @ [CallGetParameter ''/aws/reference/secretsmanager/myapp/token'' True])"
  by (simp add: getParameter_unrolled demo_world_simps)

lemma demo_refs:
  "''aws-secret:'' = secretPrefix @ []"
  "''aws-secret:myapp/prod'' = secretPrefix @ ''myapp/prod''"
  "''aws-secret:myapp/prod#database_url'' = secretPrefix @ ''myapp/prod'' @ ''#'' @ ''database_url''"
  "''aws-secret:myapp/prod#missing'' = secretPrefix @ ''myapp/prod'' @ ''#'' @ ''missing''"
  "''aws-secret:myapp/prod#k1#k2'' = secretPrefix @ ''myapp/prod'' @ ''#'' @ ''k1#k2''"
  "''aws-secret:myapp/api#key'' = secretPrefix @ ''myapp/api'' @ ''#'' @ ''key''"
  "''aws-secret:#key'' = secretPrefix @ ''#'' @ ''key''"
  "''aws-secret:/aws/reference/secretsmanager/myapp/token'' =
     secretPrefix @ ''/aws/reference/secretsmanager/myapp/token''"
  "''aws-secret:myapp/api'' = secretPrefix @ ''myapp/api''"
  by (simp_all add: secretPrefix_def)

lemma demo_names:
  "CHR ''#'' \<notin> set ''myapp/prod''" "''myapp/prod'' \<noteq> []"
  "\<not> HasPrefix ''myapp/prod'' ''/aws/reference/secretsmanager/''"
  "\<not> HasPrefix (''myapp/prod'' @ ''#'' @ key) ''/aws/reference/secretsmanager/''"
  "CHR ''#'' \<notin> set ''myapp/api''" "''myapp/api'' \<noteq> []"
  "\<not> HasPrefix (''myapp/api'' @ ''#'' @ key) ''/aws/reference/secretsmanager/''"
  "''/aws/reference/secretsmanager/myapp/token'' \<noteq> []"
  "HasPrefix ''/aws/reference/secretsmanager/myapp/token'' ''/aws/reference/secretsmanager/''"
  "\<not> HasPrefix ''myapp/api'' ''/aws/reference/secretsmanager/''"
  by simp_all

lemma demo_resolve_database_url:
  "resolveSecret demo_world ''aws-secret:myapp/prod#database_url'' tr =
     (Inr ''postgres://localhost'', tr @ [CallGetSecretValue ''myapp/prod''])"
  unfolding demo_refs(3)
  using resolveSecret_keyed[OF demo_names(1,2) demo_names(4)[of "''database_url''"], of demo_world tr]
  by (simp add: demo_getSecret_prod demo_world_simps(6))

lemma demo_resolve_missing:
  "resolveSecret demo_world ''aws-secret:myapp/prod#missing'' tr =
     (Inl (KeyNotFound ''missing'' ''myapp/prod''), tr @ [CallGetSecretValue ''myapp/prod''])"
  unfolding demo_refs(4)
  using resolveSecret_keyed[OF demo_names(1,2) demo_names(4)[of "''missing''"], of demo_world tr]
  by (simp add: demo_getSecret_prod demo_world_simps(6))

lemma demo_cuts:
  "Cut ''NORMAL=value'' ''='' = (''NORMAL'', ''value'', True)"
  "Cut ''MALFORMED'' ''='' = (''MALFORMED'', [], False)"
  "Cut ''GOOD=value'' ''='' = (''GOOD'', ''value'', True)"
  "Cut ''DATABASE_URL=aws-secret:myapp/prod#database_url'' ''='' =
     (''DATABASE_URL'', ''aws-secret:myapp/prod#database_url'', True)"
  "Cut ''API=aws-secret:myapp/prod#missing'' ''='' =
     (''API'', ''aws-secret:myapp/prod#missing'', True)"
  "Cut ''aws-secret:k=v'' ''='' = (''aws-secret:k'', ''v'', True)"
  "Cut ''A=x-aws-secret:y'' ''='' = (''A'', ''x-aws-secret:y'', True)"
  by (simp_all add: Cut_def)

lemma demo_prefixes:
  "\<not> HasPrefix ''value'' secretPrefix"
  "\<not> HasPrefix [] secretPrefix"
  "HasPrefix ''aws-secret:myapp/prod#database_url'' secretPrefix"
  "HasPrefix ''aws-secret:myapp/prod#missing'' secretPrefix"
  "\<not> HasPrefix ''v'' secretPrefix"
  "\<not> HasPrefix ''x-aws-secret:y'' secretPrefix"
  by (simp_all add: secretPrefix_def)

lemma demo_contains:
  "Contains ''DATABASE_URL=aws-secret:myapp/prod#database_url'' secretPrefix"
  "Contains ''API=aws-secret:myapp/prod#missing'' secretPrefix"
  "Contains ''aws-secret:k=v'' secretPrefix"
  "Contains ''A=x-aws-secret:y'' secretPrefix"
  "\<not> Contains ''MALFORMED'' secretPrefix"
  "\<not> Contains ''GOOD=value'' secretPrefix"
  "\<not> Contains ''NORMAL=value'' secretPrefix"
  by (simp_all add: Contains_def secretPrefix_def)

lemma demo_separators:
  "has_separator ''NORMAL=value''"
  "\<not> has_separator ''MALFORMED''"
  "has_separator ''GOOD=value''"
  "has_separator ''DATABASE_URL=aws-secret:myapp/prod#database_url''"
  "has_separator ''API=aws-secret:myapp/prod#missing''"
  "has_separator ''aws-secret:k=v''"
  "has_separator ''A=x-aws-secret:y''"
  by (simp_all add: has_separator_def)

lemma demo_loop_success:
  "resolveSecrets_loop demo_world
     [''NORMAL=value'', ''MALFORMED'', ''DATABASE_URL=aws-secret:myapp/prod#database_url''] [] tr =
   (([''NORMAL=value'', ''DATABASE_URL=postgres://localhost''], None),
    tr @ [CallGetSecretValue ''myapp/prod''])"
  by (simp add: demo_cuts demo_prefixes demo_resolve_database_url)

lemma demo_loop_failure:
  "resolveSecrets_loop demo_world
     [''NORMAL=value'', ''API=aws-secret:myapp/prod#missing'', ''GOOD=value''] [] tr =
   (([], Some (ResolveFailed ''API'' (KeyNotFound ''missing'' ''myapp/prod''))),
    tr @ [CallGetSecretValue ''myapp/prod''])"
  by (simp add: demo_cuts demo_prefixes demo_resolve_missing)

lemma demo_resolveSecrets_success:
  "resolveSecrets demo_world
     [''NORMAL=value'', ''MALFORMED'', ''DATABASE_URL=aws-secret:myapp/prod#database_url''] [] =
   (([''NORMAL=value'', ''DATABASE_URL=postgres://localhost''], None),
    [LoadConfig, NewClients, CallGetSecretValue ''myapp/prod''])"
proof -
  have "list_ex (\<lambda>e. Contains e secretPrefix)
     [''NORMAL=value'', ''MALFORMED'', ''DATABASE_URL=aws-secret:myapp/prod#database_url'']"
    by (simp add: demo_contains)
  from resolveSecrets_slow[OF this demo_world_simps(1), of "[]"] show ?thesis
    by (simp only: demo_loop_success append_Nil append_Cons)
qed

lemma demo_resolveSecrets_failure:
  "resolveSecrets demo_world
     [''NORMAL=value'', ''API=aws-secret:myapp/prod#missing'', ''GOOD=value''] [] =
   (([], Some (ResolveFailed ''API'' (KeyNotFound ''missing'' ''myapp/prod''))),
    [LoadConfig, NewClients, CallGetSecretValue ''myapp/prod''])"
proof -
  have "list_ex (\<lambda>e. Contains e secretPrefix)
     [''NORMAL=value'', ''API=aws-secret:myapp/prod#missing'', ''GOOD=value'']"
    by (simp add: demo_contains)
  from resolveSecrets_slow[OF this demo_world_simps(1), of "[]"] show ?thesis
    by (simp only: demo_loop_failure append_Nil append_Cons)
qed

lemma mixed_loop:
  "resolveSecrets_loop w [''MALFORMED'', ''aws-secret:k=v'', ''A=x-aws-secret:y''] [] tr =
     (([''aws-secret:k=v'', ''A=x-aws-secret:y''], None), tr)"
  by (simp add: demo_cuts demo_prefixes)

lemma mixed_resolveSecrets:
  "resolveSecrets offline_world [''MALFORMED'', ''aws-secret:k=v'', ''A=x-aws-secret:y''] [] =
     (([''aws-secret:k=v'', ''A=x-aws-secret:y''], None), [LoadConfig, NewClients])"
proof -
  have "list_ex (\<lambda>e. Contains e secretPrefix) [''MALFORMED'', ''aws-secret:k=v'', ''A=x-aws-secret:y'']"
    by (simp add: demo_contains)
  from resolveSecrets_slow[OF this offline_world_simps(1), of "[]"] show ?thesis
    by (simp only: mixed_loop append_Nil)
qed

lemma malformed_good_resolveSecrets:
  "resolveSecrets w [''MALFORMED'', ''GOOD=value''] tr = (([''MALFORMED'', ''GOOD=value''], None), tr)"
  by (rule resolveSecrets_fast) (simp add: demo_contains)

lemma Cut_key_value:
  assumes "CHR ''='' \<notin> set name"
  shows "Cut (name @ ''='' @ v) ''='' = (name, v, True)"
proof -
  have "Index (name @ CHR ''='' # v) ''='' = Some (length name)"
    using assms by (rule Index_char_first)
  then show ?thesis by (simp add: Cut_def)
qed

lemma single_entry_key_not_found:
  assumes "CHR ''='' \<notin> set name" "CHR ''#'' \<notin> set sn" "sn \<noteq> []"
    "\<not> HasPrefix (sn @ ''#'' @ k) ''/aws/reference/secretsmanager/''"
    "LoadDefaultConfig w tr = None"
    "getSecret w sn (tr @ [LoadConfig, NewClients]) = (Inr raw, tr')"
    "Unmarshal w raw = Inr parsed" "parsed k = None"
  shows "resolveSecrets w [name @ ''='' @ secretPrefix @ sn @ ''#'' @ k] tr =
           (([], Some (ResolveFailed name (KeyNotFound k sn))), tr')"
proof -
  let ?v = "secretPrefix @ sn @ ''#'' @ k"
  have c: "Cut (name @ ''='' @ ?v) ''='' = (name, ?v, True)"
    using assms(1) by (rule Cut_key_value)
  have "name @ ''='' @ ?v = (name @ ''='') @ secretPrefix @ (sn @ ''#'' @ k)" by simp
  then have "Contains (name @ ''='' @ ?v) secretPrefix"
    unfolding Contains_iff by blast
  then have s: "list_ex (\<lambda>e. Contains e secretPrefix) [name @ ''='' @ ?v]" by simp
  have r: "resolveSecret w ?v (tr @ [LoadConfig, NewClients]) = (Inl (KeyNotFound k sn), tr')"
    unfolding resolveSecret_keyed[OF assms(2,3,4)] using assms(6,7,8) by simp
  have "resolveSecrets_loop w [name @ ''='' @ ?v] [] (tr @ [LoadConfig, NewClients]) =
      (([], Some (ResolveFailed name (KeyNotFound k sn))), tr')"
    using c r by simp
  with resolveSecrets_slow[OF s assms(5)] show ?thesis by simp
qed

lemma key_not_found_text:
  "error_message (ResolveFailed name (KeyNotFound k sn)) =
     ''failed to resolve '' @ name @ '': key '' @ k @ '' not found in secret '' @ sn"
  by simp

lemma offline_getSecret:
  "getSecret offline_world name tr =
     (Inl (FailedAfterRetries 3 (Some (SdkError ''no route to host''))),
      tr @ [CallGetSecretValue name, TimerElapsed 100, CallGetSecretValue name, TimerElapsed 200,
            CallGetSecretValue name])"
  by (simp add: getSecret_unrolled offline_world_simps)

lemma key_equals_value_resolveSecrets:
  "resolveSecrets offline_world [''aws-secret:x=aws-secret:x''] [] =
     (([], Some (ResolveFailed ''aws-secret:x''
                   (FailedAfterRetries 3 (Some (SdkError ''no route to host''))))),
      [LoadConfig, NewClients, CallGetSecretValue ''x'', TimerElapsed 100,
       CallGetSecretValue ''x'', TimerElapsed 200, CallGetSecretValue ''x''])"
proof -
  have c: "Cut ''aws-secret:x=aws-secret:x'' ''='' = (''aws-secret:x'', ''aws-secret:x'', True)"
    by (simp add: Cut_def)
  have p: "HasPrefix ''aws-secret:x'' secretPrefix" by (simp add: secretPrefix_def)
  have v: "''aws-secret:x'' = secretPrefix @ ''x''" by (simp add: secretPrefix_def)
  have r: "resolveSecret offline_world ''aws-secret:x'' tr = getSecret offline_world ''x'' tr" for tr
    unfolding v by (rule resolveSecret_plain) simp_all
  have l: "resolveSecrets_loop offline_world [''aws-secret:x=aws-secret:x''] [] tr =
      (([], Some (ResolveFailed ''aws-secret:x''
                   (FailedAfterRetries 3 (Some (SdkError ''no route to host''))))),
       tr @ [CallGetSecretValue ''x'', TimerElapsed 100, CallGetSecretValue ''x'',
             TimerElapsed 200, CallGetSecretValue ''x''])" for tr
    by (simp add: c p r offline_getSecret)
  have "Contains ''aws-secret:x=aws-secret:x'' secretPrefix"
    by (simp add: Contains_def secretPrefix_def)
  then have "list_ex (\<lambda>e. Contains e secretPrefix) [''aws-secret:x=aws-secret:x'']" by simp
  from resolveSecrets_slow[OF this offline_world_simps(1), of "[]"] show ?thesis
    by (simp only: l append_Nil append_Cons)
qed

lemma key_equals_value_text:
  "error_message (ResolveFailed ''aws-secret:x''
      (FailedAfterRetries 3 (Some (SdkError ''no route to host'')))) =
   ''failed to resolve aws-secret:x: failed after 3 retries: no route to host''"
  by (simp add: show_nat_3)

lemma key_equals_value_contained:
  "Contains ''failed to resolve aws-secret:x: failed after 3 retries: no route to host''
     ''aws-secret:x''"
  by (simp add: Contains_def)

lemma leaky_json_world_simps:
  "LoadDefaultConfig leaky_json_world tr = None"
  "GetSecretValue leaky_json_world tr name = Inr (Some ''plain-text-secret'')"
  "Unmarshal leaky_json_world ''plain-text-secret'' =
     Inl (JsonError (''invalid character '' @ [CHR 0x27] @ ''p'' @ [CHR 0x27] @
                     '' looking for beginning of value''))"
  by (simp_all add: leaky_json_world_def)

lemma leaky_resolveSecrets:
  "resolveSecrets leaky_json_world [''CFG=aws-secret:myapp/cfg#user''] [] =
     (([], Some (ResolveFailed ''CFG''
                   (NotJSON ''myapp/cfg''
                      (JsonError (''invalid character '' @ [CHR 0x27] @ ''p'' @ [CHR 0x27] @
                                  '' looking for beginning of value''))))),
      [LoadConfig, NewClients, CallGetSecretValue ''myapp/cfg''])"
proof -
  have c: "Cut ''CFG=aws-secret:myapp/cfg#user'' ''='' = (''CFG'', ''aws-secret:myapp/cfg#user'', True)"
    by (simp add: Cut_def)
  have p: "HasPrefix ''aws-secret:myapp/cfg#user'' secretPrefix" by (simp add: secretPrefix_def)
  have v: "''aws-secret:myapp/cfg#user'' = secretPrefix @ ''myapp/cfg'' @ ''#'' @ ''user''"
    by (simp add: secretPrefix_def)
  have g: "getSecret leaky_json_world ''myapp/cfg'' tr =
      (Inr ''plain-text-secret'', tr @ [CallGetSecretValue ''myapp/cfg''])" for tr
    by (simp add: getSecret_unrolled leaky_json_world_simps)
  have r: "resolveSecret leaky_json_world ''aws-secret:myapp/cfg#user'' tr =
      (Inl (NotJSON ''myapp/cfg''
              (JsonError (''invalid character '' @ [CHR 0x27] @ ''p'' @ [CHR 0x27] @
                          '' looking for beginning of value''))),
       tr @ [CallGetSecretValue ''myapp/cfg''])" for tr
    unfolding v
    using resolveSecret_keyed[of "''myapp/cfg''" "''user''" leaky_json_world tr]
    by (simp add: g leaky_json_world_simps)
  have l: "resolveSecrets_loop leaky_json_world [''CFG=aws-secret:myapp/cfg#user''] [] tr =
      (([], Some (ResolveFailed ''CFG''
                   (NotJSON ''myapp/cfg''
                      (JsonError (''invalid character '' @ [CHR 0x27] @ ''p'' @ [CHR 0x27] @
                                  '' looking for beginning of value''))))),
       tr @ [CallGetSecretValue ''myapp/cfg''])" for tr
    by (simp add: c p r)
  have "Contains ''CFG=aws-secret:myapp/cfg#user'' secretPrefix"
    by (simp add: Contains_def secretPrefix_def)
  then have "list_ex (\<lambda>e. Contains e secretPrefix) [''CFG=aws-secret:myapp/cfg#user'']" by simp
  from resolveSecrets_slow[OF this leaky_json_world_simps(1), of "[]"] show ?thesis
    by (simp only: l append_Nil append_Cons)
qed

lemma demo_failure_text:
  "error_message (ResolveFailed ''API'' (KeyNotFound ''missing'' ''myapp/prod'')) =
     ''failed to resolve API: key missing not found in secret myapp/prod''"
  by simp

lemma demo_failure_contained:
  "Contains ''failed to resolve API: key missing not found in secret myapp/prod'' ''myapp/prod''"
  "Contains ''failed to resolve API: key missing not found in secret myapp/prod'' ''missing''"
  by (simp_all add: Contains_def)

lemma demo_single_failure:
  "resolveSecrets demo_world [''API=aws-secret:myapp/prod#missing''] [] =
     (([], Some (ResolveFailed ''API'' (KeyNotFound ''missing'' ''myapp/prod''))),
      [LoadConfig, NewClients, CallGetSecretValue ''myapp/prod''])"
proof -
  have e: "''API=aws-secret:myapp/prod#missing'' =
      ''API'' @ ''='' @ secretPrefix @ ''myapp/prod'' @ ''#'' @ ''missing''"
    by (simp add: secretPrefix_def)
  show ?thesis
    unfolding e
    by (rule single_entry_key_not_found[where raw = example_json
          and parsed = "[''database_url'' \<mapsto> ''postgres://localhost'', ''api_key'' \<mapsto> ''secret123'']"])
       (simp_all add: demo_world_simps demo_getSecret_prod)
qed

section \<open>Facts about the wait status\<close>

lemma ExitStatus_exit_42: "ExitStatus (exited_with 42) = 42"
  by (simp add: ExitStatus_def Exited_def exited_with_def)

lemma ExitStatus_exit_0: "ExitStatus (exited_with 0) = 0"
  by (simp add: ExitStatus_def Exited_def exited_with_def)

lemma ExitStatus_sigkill: "ExitStatus (killed_by 9) = - 1"
  by (simp add: ExitStatus_def Exited_def killed_by_def)

lemma Signaled_sigkill: "Signaled (killed_by 9)" "\<not> Exited (killed_by 9)"
  by (simp_all add: Signaled_def Exited_def killed_by_def)

lemma low_seven_bits: "(0x7F :: 32 word) = mask 7"
  by (simp add: mask_eq_exp_minus_1)

lemma low_byte: "(0xFF :: 32 word) = mask 8"
  by (simp add: mask_eq_exp_minus_1)

lemma bit_below_256:
  fixes n :: nat
  assumes "n < 256" "bit n k"
  shows "k < 8"
proof -
  from assms(1) have "take_bit 8 n = n" by (simp add: take_bit_nat_eq_self)
  with assms(2) have "bit (take_bit 8 n) k" by simp
  then show ?thesis by (simp add: bit_take_bit_iff)
qed

lemma bit_below_128:
  fixes n :: nat
  assumes "n < 128" "bit n k"
  shows "k < 7"
proof -
  from assms(1) have "take_bit 7 n = n" by (simp add: take_bit_nat_eq_self)
  with assms(2) have "bit (take_bit 7 n) k" by simp
  then show ?thesis by (simp add: bit_take_bit_iff)
qed

lemma Exited_exited_with: "Exited (exited_with n)"
  unfolding Exited_def exited_with_def low_seven_bits
  by (simp add: take_bit_eq_mask[symmetric] take_bit_push_bit)

lemma status_byte:
  assumes "n < 256"
  shows "drop_bit 8 (exited_with n) AND 0xFF = (word_of_nat n :: 32 word)"
proof -
  have "n mod 256 = n" using assms by simp
  then show ?thesis
    unfolding exited_with_def low_byte
    by (intro bit_word_eqI) (auto simp: bit_simps dest: bit_below_256[OF assms])
qed

lemma ExitStatus_exited_with:
  assumes "n < 256"
  shows "ExitStatus (exited_with n) = int n"
proof -
  have "uint (word_of_nat n :: 32 word) = int n"
    using assms by (simp add: unsigned_of_nat take_bit_nat_eq_self)
  then show ?thesis
    by (simp add: ExitStatus_def Exited_exited_with status_byte[OF assms])
qed

lemma not_Exited_killed_by:
  assumes "0 < s" "s < 128"
  shows "\<not> Exited (killed_by s)"
proof
  assume "Exited (killed_by s)"
  then have z: "(word_of_nat s :: 32 word) AND mask 7 = 0"
    using assms by (simp add: Exited_def killed_by_def low_seven_bits)
  have "(word_of_nat s :: 32 word) AND mask 7 = word_of_nat s"
    by (intro bit_word_eqI) (auto simp: bit_simps dest: bit_below_128[OF assms(2)])
  with z have "(word_of_nat s :: 32 word) = 0" by simp
  then have "unat (word_of_nat s :: 32 word) = 0" by simp
  with assms show False by (simp add: unat_of_nat)
qed

lemma ExitStatus_killed_by:
  "0 < s \<Longrightarrow> s < 128 \<Longrightarrow> ExitStatus (killed_by s) = - 1"
  by (simp add: ExitStatus_def not_Exited_killed_by)

section \<open>Facts about the signal handler\<close>

lemma Kill_present:
  "target \<in> set (targets st) \<Longrightarrow>
   Kill target sig st = (None, st\<lparr>delivered := delivered st @ [(now st, target, sig)]\<rparr>)"
  by (simp add: Kill_def)

lemma Kill_absent:
  "target \<notin> set (targets st) \<Longrightarrow> Kill target sig st = (Some ESRCH, st)"
  by (simp add: Kill_def)

lemma Kill_frame:
  "timers (snd (Kill target sig st)) = timers st"
  "now (snd (Kill target sig st)) = now st"
  "targets (snd (Kill target sig st)) = targets st"
  by (simp_all add: Kill_def)





























section \<open>The properties\<close>

subsection \<open>The fast path\<close>

lemma plain_entries_eval:
  "\<not> Contains ''NORMAL=value'' secretPrefix" "\<not> Contains ''PATH=/usr/bin'' secretPrefix"
  by (simp_all add: Contains_def secretPrefix_def)

text \<open>
  Claim C9. When no entry of the input contains the reference prefix \<open>aws-secret:\<close> as a
  substring, \<open>resolveSecrets\<close> returns the input sequence itself, in the same order, with no
  error, and the trace of effects is unchanged: the configuration is not loaded, no client
  is created and nothing is fetched.
\<close>

theorem resolveSecrets_fast_path:
  assumes "\<forall>e\<in>set env. \<not> (\<exists>a b. e = a @ secretPrefix @ b)"
  shows "resolveSecrets w env tr = ((env, None), tr)"
  using assms by (simp add: resolveSecrets_fast list_ex_Contains_iff)

theorem resolveSecrets_fast_path_witness:
  "\<not> Contains ''NORMAL=value'' secretPrefix \<and> \<not> Contains ''PATH=/usr/bin'' secretPrefix \<and>
   resolveSecrets offline_world [''NORMAL=value'', ''PATH=/usr/bin''] [] =
     (([''NORMAL=value'', ''PATH=/usr/bin''], None), [])"
proof -
  have h: "\<forall>e\<in>set [''NORMAL=value'', ''PATH=/usr/bin'']. \<not> (\<exists>a b. e = a @ secretPrefix @ b)"
    using plain_entries_eval by (simp add: Contains_iff)
  from resolveSecrets_fast_path[OF h, of offline_world "[]"] plain_entries_eval
  show ?thesis by (intro conjI)
qed

subsection \<open>All or nothing\<close>

text \<open>
  Claim C1, as stated, says that the error of a failed call names the offending entry's
  key and never its value. The error wraps the resolver's own error, and that error is
  built from the value. For the entry \<open>API=aws-secret:myapp/prod#missing\<close> the text is
  ``failed to resolve API: key missing not found in secret myapp/prod'': it names the secret
  name and the JSON key, which are the value without its fixed prefix and its \<open>#\<close>. For the
  entry \<open>aws-secret:x=aws-secret:x\<close>, whose key and value are the same text, the error text
  contains the whole value. And where the fetched text is not JSON, the parser's message,
  which the Go library builds from the first offending character, is part of the text
  too.
\<close>

theorem resolve_error_carries_value:
  "fst (resolveSecrets demo_world
          [''NORMAL=value'', ''API=aws-secret:myapp/prod#missing'', ''GOOD=value''] []) =
     ([], Some (ResolveFailed ''API'' (KeyNotFound ''missing'' ''myapp/prod''))) \<and>
   ''aws-secret:myapp/prod#missing'' = secretPrefix @ ''myapp/prod'' @ ''#'' @ ''missing'' \<and>
   error_message (ResolveFailed ''API'' (KeyNotFound ''missing'' ''myapp/prod'')) =
     ''failed to resolve API: key missing not found in secret myapp/prod'' \<and>
   Contains ''failed to resolve API: key missing not found in secret myapp/prod'' ''myapp/prod'' \<and>
   Contains ''failed to resolve API: key missing not found in secret myapp/prod'' ''missing'' \<and>
   Cut ''aws-secret:x=aws-secret:x'' ''='' = (''aws-secret:x'', ''aws-secret:x'', True) \<and>
   fst (resolveSecrets offline_world [''aws-secret:x=aws-secret:x''] []) =
     ([], Some (ResolveFailed ''aws-secret:x''
                  (FailedAfterRetries 3 (Some (SdkError ''no route to host''))))) \<and>
   error_message (ResolveFailed ''aws-secret:x''
      (FailedAfterRetries 3 (Some (SdkError ''no route to host'')))) =
     ''failed to resolve aws-secret:x: failed after 3 retries: no route to host'' \<and>
   Contains ''failed to resolve aws-secret:x: failed after 3 retries: no route to host''
     ''aws-secret:x'' \<and>
   GetSecretValue leaky_json_world [LoadConfig, NewClients] ''myapp/cfg'' =
     Inr (Some ''plain-text-secret'') \<and>
   fst (resolveSecrets leaky_json_world [''CFG=aws-secret:myapp/cfg#user''] []) =
     ([], Some (ResolveFailed ''CFG''
                  (NotJSON ''myapp/cfg''
                     (JsonError (''invalid character '' @ [CHR 0x27] @ ''p'' @ [CHR 0x27] @
                                 '' looking for beginning of value'')))))"
proof (intro conjI)
  show "fst (resolveSecrets demo_world
          [''NORMAL=value'', ''API=aws-secret:myapp/prod#missing'', ''GOOD=value''] []) =
     ([], Some (ResolveFailed ''API'' (KeyNotFound ''missing'' ''myapp/prod'')))"
    by (simp add: demo_resolveSecrets_failure)
  show "''aws-secret:myapp/prod#missing'' = secretPrefix @ ''myapp/prod'' @ ''#'' @ ''missing''"
    by (rule demo_refs(4))
  show "error_message (ResolveFailed ''API'' (KeyNotFound ''missing'' ''myapp/prod'')) =
     ''failed to resolve API: key missing not found in secret myapp/prod''"
    by (rule demo_failure_text)
  show "Contains ''failed to resolve API: key missing not found in secret myapp/prod''
      ''myapp/prod''"
    by (rule demo_failure_contained(1))
  show "Contains ''failed to resolve API: key missing not found in secret myapp/prod''
      ''missing''"
    by (rule demo_failure_contained(2))
  show "Cut ''aws-secret:x=aws-secret:x'' ''='' = (''aws-secret:x'', ''aws-secret:x'', True)"
    by (simp add: Cut_def)
  show "fst (resolveSecrets offline_world [''aws-secret:x=aws-secret:x''] []) =
     ([], Some (ResolveFailed ''aws-secret:x''
                  (FailedAfterRetries 3 (Some (SdkError ''no route to host'')))))"
    by (simp add: key_equals_value_resolveSecrets)
  show "error_message (ResolveFailed ''aws-secret:x''
      (FailedAfterRetries 3 (Some (SdkError ''no route to host'')))) =
     ''failed to resolve aws-secret:x: failed after 3 retries: no route to host''"
    by (rule key_equals_value_text)
  show "Contains ''failed to resolve aws-secret:x: failed after 3 retries: no route to host''
     ''aws-secret:x''"
    by (rule key_equals_value_contained)
  show "GetSecretValue leaky_json_world [LoadConfig, NewClients] ''myapp/cfg'' =
     Inr (Some ''plain-text-secret'')"
    by (rule leaky_json_world_simps(2))
  show "fst (resolveSecrets leaky_json_world [''CFG=aws-secret:myapp/cfg#user''] []) =
     ([], Some (ResolveFailed ''CFG''
                  (NotJSON ''myapp/cfg''
                     (JsonError (''invalid character '' @ [CHR 0x27] @ ''p'' @ [CHR 0x27] @
                                 '' looking for beginning of value'')))))"
    by (simp add: leaky_resolveSecrets)
qed

text \<open>
  Claim C1, amended. \<open>resolveSecrets\<close> is atomic. Whatever the input and the world, its
  result is one of two: either no error, and the output is the input with every entry whose
  value begins with the prefix resolved (on the slow path the entries without separator are
  gone, the others are in their order); or an error together with the empty (nil) output,
  so that no partly resolved sequence is ever returned. The error is the failure of
  \<open>config.LoadDefaultConfig\<close>, before any entry is looked at, or it comes from an entry whose
  value begins with the prefix and on which \<open>resolveSecret\<close> failed: then it is
  \<open>ResolveFailed\<close> with the key of that entry and the unchanged error of \<open>resolveSecret\<close>,
  and its text is ``failed to resolve KEY: '' followed by the text of that error. The
  wrapper adds the key only, but the wrapped error is not free of the value: for the input
  with the one entry \<open>KEY=aws-secret:NAME#K\<close> (\<open>KEY\<close> without \<open>=\<close>; \<open>NAME\<close> not empty,
  without \<open>#\<close>, and \<open>NAME#K\<close> not a parameter path), when the configuration loads and the
  secret is fetched and parsed and has no key \<open>K\<close>, the call returns this error and its text
  is ``failed to resolve KEY: key K not found in secret NAME''.
\<close>

theorem resolveSecrets_atomic:
  "(resolveSecrets w env tr = ((out, err), tr') \<longrightarrow>
      (err = None \<and>
       list_all2 (entry_resolved w)
         (if list_ex (\<lambda>e. Contains e secretPrefix) env then filter has_separator env else env) out)
      \<or> (out = [] \<and>
          (\<exists>x. err = Some x \<and>
             ((\<exists>c. x = LoadConfigFailed c \<and> LoadDefaultConfig w tr = Some c) \<or>
              list_ex (\<lambda>e. entry_failed w e x tr') env)))) \<and>
   (CHR ''='' \<notin> set name \<and> CHR ''#'' \<notin> set sn \<and> sn \<noteq> [] \<and>
    \<not> HasPrefix (sn @ ''#'' @ k) ''/aws/reference/secretsmanager/'' \<and>
    LoadDefaultConfig w tr = None \<and>
    getSecret w sn (tr @ [LoadConfig, NewClients]) = (Inr raw, tr2) \<and>
    Unmarshal w raw = Inr parsed \<and> parsed k = None \<longrightarrow>
      resolveSecrets w [name @ ''='' @ secretPrefix @ sn @ ''#'' @ k] tr =
        (([], Some (ResolveFailed name (KeyNotFound k sn))), tr2) \<and>
      error_message (ResolveFailed name (KeyNotFound k sn)) =
        ''failed to resolve '' @ name @ '': key '' @ k @ '' not found in secret '' @ sn)"
proof (intro conjI impI)
  assume r: "resolveSecrets w env tr = ((out, err), tr')"
  show "(err = None \<and>
       list_all2 (entry_resolved w)
         (if list_ex (\<lambda>e. Contains e secretPrefix) env then filter has_separator env else env) out)
      \<or> (out = [] \<and>
          (\<exists>x. err = Some x \<and>
             ((\<exists>c. x = LoadConfigFailed c \<and> LoadDefaultConfig w tr = Some c) \<or>
              list_ex (\<lambda>e. entry_failed w e x tr') env)))"
  proof (cases "list_ex (\<lambda>e. Contains e secretPrefix) env")
    case False
    with r have o: "out = env" "err = None" by (simp_all add: resolveSecrets_fast)
    from False have "\<forall>e\<in>set env. entry_resolved w e e"
      by (simp add: list_ex_iff entry_resolved_plain)
    then have "list_all2 (entry_resolved w) env env" by (simp add: list_all2_same)
    with o False show ?thesis by simp
  next
    case True
    show ?thesis
    proof (cases "LoadDefaultConfig w tr")
      case (Some c)
      from r resolveSecrets_config_failed[OF True Some]
      have "out = []" "err = Some (LoadConfigFailed c)" by simp_all
      with Some show ?thesis by simp
    next
      case None
      from r resolveSecrets_slow[OF True None]
      have l: "resolveSecrets_loop w env [] (tr @ [LoadConfig, NewClients]) = ((out, err), tr')"
        by simp
      show ?thesis
      proof (cases err)
        case n: None
        with loop_success[OF l[unfolded n]] True show ?thesis by simp
      next
        case (Some x)
        with loop_error[OF l[unfolded Some]] show ?thesis by simp
      qed
    qed
  qed
next
  assume a: "CHR ''='' \<notin> set name \<and> CHR ''#'' \<notin> set sn \<and> sn \<noteq> [] \<and>
    \<not> HasPrefix (sn @ ''#'' @ k) ''/aws/reference/secretsmanager/'' \<and>
    LoadDefaultConfig w tr = None \<and>
    getSecret w sn (tr @ [LoadConfig, NewClients]) = (Inr raw, tr2) \<and>
    Unmarshal w raw = Inr parsed \<and> parsed k = None"
  then have h: "CHR ''='' \<notin> set name" "CHR ''#'' \<notin> set sn" "sn \<noteq> []"
    "\<not> HasPrefix (sn @ ''#'' @ k) ''/aws/reference/secretsmanager/''"
    "LoadDefaultConfig w tr = None"
    "getSecret w sn (tr @ [LoadConfig, NewClients]) = (Inr raw, tr2)"
    "Unmarshal w raw = Inr parsed" "parsed k = None"
    by blast+
  show "resolveSecrets w [name @ ''='' @ secretPrefix @ sn @ ''#'' @ k] tr =
        (([], Some (ResolveFailed name (KeyNotFound k sn))), tr2)"
    by (rule single_entry_key_not_found[OF h])
  show "error_message (ResolveFailed name (KeyNotFound k sn)) =
        ''failed to resolve '' @ name @ '': key '' @ k @ '' not found in secret '' @ sn"
    by (rule key_not_found_text)
qed

theorem resolveSecrets_atomic_witness:
  "resolveSecrets demo_world
     [''NORMAL=value'', ''MALFORMED'', ''DATABASE_URL=aws-secret:myapp/prod#database_url''] [] =
   (([''NORMAL=value'', ''DATABASE_URL=postgres://localhost''], None),
    [LoadConfig, NewClients, CallGetSecretValue ''myapp/prod'']) \<and>
   list_all2 (entry_resolved demo_world)
     [''NORMAL=value'', ''DATABASE_URL=aws-secret:myapp/prod#database_url'']
     [''NORMAL=value'', ''DATABASE_URL=postgres://localhost''] \<and>
   resolveSecrets demo_world
     [''NORMAL=value'', ''API=aws-secret:myapp/prod#missing'', ''GOOD=value''] [] =
   (([], Some (ResolveFailed ''API'' (KeyNotFound ''missing'' ''myapp/prod''))),
    [LoadConfig, NewClients, CallGetSecretValue ''myapp/prod'']) \<and>
   list_ex (\<lambda>e. entry_failed demo_world e
              (ResolveFailed ''API'' (KeyNotFound ''missing'' ''myapp/prod''))
              [LoadConfig, NewClients, CallGetSecretValue ''myapp/prod''])
     [''NORMAL=value'', ''API=aws-secret:myapp/prod#missing'', ''GOOD=value''] \<and>
   resolveSecrets demo_world [''API'' @ ''='' @ secretPrefix @ ''myapp/prod'' @ ''#'' @ ''missing''] [] =
   (([], Some (ResolveFailed ''API'' (KeyNotFound ''missing'' ''myapp/prod''))),
    [LoadConfig, NewClients, CallGetSecretValue ''myapp/prod'']) \<and>
   error_message (ResolveFailed ''API'' (KeyNotFound ''missing'' ''myapp/prod'')) =
     ''failed to resolve API: key missing not found in secret myapp/prod''"
proof (intro conjI)
  show "list_all2 (entry_resolved demo_world)
     [''NORMAL=value'', ''DATABASE_URL=aws-secret:myapp/prod#database_url'']
     [''NORMAL=value'', ''DATABASE_URL=postgres://localhost'']"
    using resolveSecrets_atomic[THEN conjunct1, THEN mp, OF demo_resolveSecrets_success]
    by (simp add: demo_contains demo_separators)
  show "list_ex (\<lambda>e. entry_failed demo_world e
              (ResolveFailed ''API'' (KeyNotFound ''missing'' ''myapp/prod''))
              [LoadConfig, NewClients, CallGetSecretValue ''myapp/prod''])
     [''NORMAL=value'', ''API=aws-secret:myapp/prod#missing'', ''GOOD=value'']"
    using resolveSecrets_atomic[THEN conjunct1, THEN mp, OF demo_resolveSecrets_failure]
    by simp
  have h: "CHR ''='' \<notin> set ''API'' \<and> CHR ''#'' \<notin> set ''myapp/prod'' \<and> ''myapp/prod'' \<noteq> [] \<and>
    \<not> HasPrefix (''myapp/prod'' @ ''#'' @ ''missing'') ''/aws/reference/secretsmanager/'' \<and>
    LoadDefaultConfig demo_world [] = None \<and>
    getSecret demo_world ''myapp/prod'' ([] @ [LoadConfig, NewClients]) =
      (Inr example_json, [LoadConfig, NewClients, CallGetSecretValue ''myapp/prod'']) \<and>
    Unmarshal demo_world example_json =
      Inr [''database_url'' \<mapsto> ''postgres://localhost'', ''api_key'' \<mapsto> ''secret123''] \<and>
    [''database_url'' \<mapsto> ''postgres://localhost'', ''api_key'' \<mapsto> ''secret123''] ''missing'' = None"
    by (simp add: demo_world_simps demo_getSecret_prod)
  note S = resolveSecrets_atomic[THEN conjunct2, THEN mp, OF h]
  show "resolveSecrets demo_world
      [''API'' @ ''='' @ secretPrefix @ ''myapp/prod'' @ ''#'' @ ''missing''] [] =
   (([], Some (ResolveFailed ''API'' (KeyNotFound ''missing'' ''myapp/prod''))),
    [LoadConfig, NewClients, CallGetSecretValue ''myapp/prod''])"
    by (rule S[THEN conjunct1])
  show "error_message (ResolveFailed ''API'' (KeyNotFound ''missing'' ''myapp/prod'')) =
     ''failed to resolve API: key missing not found in secret myapp/prod''"
    using S[THEN conjunct2] by simp
qed (rule demo_resolveSecrets_success demo_resolveSecrets_failure)+

subsection \<open>Entries without separator\<close>

text \<open>
  Claim C2, as stated, says that \<open>["MALFORMED", "GOOD=value"]\<close> yields \<open>["GOOD=value"]\<close>.
  No entry of this input contains the prefix, so the fast path returns the input as it is,
  the entry without separator included.
\<close>

theorem malformed_entry_kept_on_fast_path:
  "fst (fst (resolveSecrets offline_world [''MALFORMED'', ''GOOD=value''] [])) =
     [''MALFORMED'', ''GOOD=value''] \<and>
   fst (fst (resolveSecrets offline_world [''MALFORMED'', ''GOOD=value''] [])) \<noteq> [''GOOD=value'']"
  by (simp add: malformed_good_resolveSecrets)

text \<open>
  Claim C2, amended. When at least one entry of the input contains the prefix (and the
  configuration loads), the entries with no \<open>=\<close> are dropped and never make the call fail:
  the call returns what the loop returns on the input without them, and no entry of the
  output lacks the separator. When no entry contains the prefix the input is returned
  unchanged, so \<open>["MALFORMED", "GOOD=value"]\<close> yields \<open>["MALFORMED", "GOOD=value"]\<close>.
\<close>

theorem malformed_entries_dropped_on_slow_path:
  "(list_ex (\<lambda>e. Contains e secretPrefix) env \<and> LoadDefaultConfig w tr = None \<longrightarrow>
      resolveSecrets w env tr =
        resolveSecrets_loop w (filter has_separator env) [] (tr @ [LoadConfig, NewClients]) \<and>
      list_all has_separator (fst (fst (resolveSecrets w env tr)))) \<and>
   (\<not> list_ex (\<lambda>e. Contains e secretPrefix) env \<longrightarrow> resolveSecrets w env tr = ((env, None), tr)) \<and>
   resolveSecrets w [''MALFORMED'', ''GOOD=value''] tr = (([''MALFORMED'', ''GOOD=value''], None), tr)"
proof (intro conjI impI)
  assume h: "list_ex (\<lambda>e. Contains e secretPrefix) env \<and> LoadDefaultConfig w tr = None"
  then have eq: "resolveSecrets w env tr = resolveSecrets_loop w env [] (tr @ [LoadConfig, NewClients])"
    by (simp add: resolveSecrets_slow)
  then show "resolveSecrets w env tr =
        resolveSecrets_loop w (filter has_separator env) [] (tr @ [LoadConfig, NewClients])"
    by (simp add: loop_filter)
  obtain out err t' where
    r: "resolveSecrets_loop w env [] (tr @ [LoadConfig, NewClients]) = ((out, err), t')"
    by (metis surj_pair)
  from loop_outputs_separator[OF r] have "list_all has_separator out" by (simp add: list_all_iff)
  with r eq show "list_all has_separator (fst (fst (resolveSecrets w env tr)))" by simp
next
  assume "\<not> list_ex (\<lambda>e. Contains e secretPrefix) env"
  then show "resolveSecrets w env tr = ((env, None), tr)" by (rule resolveSecrets_fast)
next
  show "resolveSecrets w [''MALFORMED'', ''GOOD=value''] tr = (([''MALFORMED'', ''GOOD=value''], None), tr)"
    by (rule malformed_good_resolveSecrets)
qed

theorem malformed_entries_dropped_on_slow_path_witness:
  "resolveSecrets demo_world
     [''NORMAL=value'', ''MALFORMED'', ''DATABASE_URL=aws-secret:myapp/prod#database_url''] [] =
   resolveSecrets_loop demo_world
     [''NORMAL=value'', ''DATABASE_URL=aws-secret:myapp/prod#database_url''] []
     [LoadConfig, NewClients] \<and>
   fst (fst (resolveSecrets demo_world
     [''NORMAL=value'', ''MALFORMED'', ''DATABASE_URL=aws-secret:myapp/prod#database_url''] [])) =
     [''NORMAL=value'', ''DATABASE_URL=postgres://localhost''] \<and>
   resolveSecrets demo_world [''NORMAL=value'', ''MALFORMED''] [] =
     (([''NORMAL=value'', ''MALFORMED''], None), [])"
proof (intro conjI)
  have c: "list_ex (\<lambda>e. Contains e secretPrefix)
     [''NORMAL=value'', ''MALFORMED'', ''DATABASE_URL=aws-secret:myapp/prod#database_url''] \<and>
     LoadDefaultConfig demo_world [] = None"
    by (simp add: demo_contains demo_world_simps)
  have f: "filter has_separator
      [''NORMAL=value'', ''MALFORMED'', ''DATABASE_URL=aws-secret:myapp/prod#database_url''] =
      [''NORMAL=value'', ''DATABASE_URL=aws-secret:myapp/prod#database_url'']"
    by (simp add: demo_separators)
  have "resolveSecrets demo_world
     [''NORMAL=value'', ''MALFORMED'', ''DATABASE_URL=aws-secret:myapp/prod#database_url''] [] =
     resolveSecrets_loop demo_world
       (filter has_separator
          [''NORMAL=value'', ''MALFORMED'', ''DATABASE_URL=aws-secret:myapp/prod#database_url''])
       [] ([] @ [LoadConfig, NewClients])"
    by (rule malformed_entries_dropped_on_slow_path[THEN conjunct1, THEN mp, OF c, THEN conjunct1])
  then show "resolveSecrets demo_world
     [''NORMAL=value'', ''MALFORMED'', ''DATABASE_URL=aws-secret:myapp/prod#database_url''] [] =
   resolveSecrets_loop demo_world
     [''NORMAL=value'', ''DATABASE_URL=aws-secret:myapp/prod#database_url''] []
     [LoadConfig, NewClients]"
    unfolding f by simp
  show "fst (fst (resolveSecrets demo_world
     [''NORMAL=value'', ''MALFORMED'', ''DATABASE_URL=aws-secret:myapp/prod#database_url''] [])) =
     [''NORMAL=value'', ''DATABASE_URL=postgres://localhost'']"
    by (simp add: demo_resolveSecrets_success)
  have n: "\<not> list_ex (\<lambda>e. Contains e secretPrefix) [''NORMAL=value'', ''MALFORMED'']"
    by (simp add: demo_contains)
  show "resolveSecrets demo_world [''NORMAL=value'', ''MALFORMED''] [] =
     (([''NORMAL=value'', ''MALFORMED''], None), [])"
    by (rule malformed_entries_dropped_on_slow_path[THEN conjunct2, THEN conjunct1, THEN mp, OF n])
qed

subsection \<open>The whole input decides\<close>

text \<open>
  Claim C10. Whether an entry without \<open>=\<close> is dropped depends on the whole input. If no
  entry contains the substring \<open>aws-secret:\<close>, the input is returned as it is, such entries
  included. If some entry contains it, wherever it stands (inside a key, or inside a value
  that does not begin with it and is never resolved), then no entry of the output lacks the
  separator, and when the call succeeds the output is, in order, the well-formed entries of
  the input, each one unchanged unless its value begins with the prefix.
\<close>

theorem whole_input_decides:
  "(\<not> list_ex (\<lambda>e. Contains e secretPrefix) env \<longrightarrow>
      resolveSecrets w env tr = ((env, None), tr)) \<and>
   (list_ex (\<lambda>e. Contains e secretPrefix) env \<longrightarrow>
      resolveSecrets w env tr = ((out, err), tr') \<longrightarrow>
        list_all has_separator out \<and>
        (err = None \<longrightarrow> list_all2 (entry_resolved w) (filter has_separator env) out))"
proof (intro conjI impI)
  assume "\<not> list_ex (\<lambda>e. Contains e secretPrefix) env"
  then show "resolveSecrets w env tr = ((env, None), tr)" by (rule resolveSecrets_fast)
next
  assume h: "list_ex (\<lambda>e. Contains e secretPrefix) env"
    and r: "resolveSecrets w env tr = ((out, err), tr')"
  show "list_all has_separator out"
  proof (cases "LoadDefaultConfig w tr")
    case (Some c)
    from r resolveSecrets_config_failed[OF h Some] show ?thesis by simp
  next
    case None
    from r resolveSecrets_slow[OF h None]
    have "resolveSecrets_loop w env [] (tr @ [LoadConfig, NewClients]) = ((out, err), tr')"
      by simp
    from loop_outputs_separator[OF this] show ?thesis by (simp add: list_all_iff)
  qed
next
  assume h: "list_ex (\<lambda>e. Contains e secretPrefix) env"
    and r: "resolveSecrets w env tr = ((out, err), tr')" and e: "err = None"
  have n: "LoadDefaultConfig w tr = None"
  proof (cases "LoadDefaultConfig w tr")
    case (Some c)
    from r resolveSecrets_config_failed[OF h Some] e show ?thesis by simp
  qed simp
  from r resolveSecrets_slow[OF h n] e
  have "resolveSecrets_loop w env [] (tr @ [LoadConfig, NewClients]) = ((out, None), tr')"
    by simp
  from loop_success[OF this] show "list_all2 (entry_resolved w) (filter has_separator env) out"
    by simp
qed

theorem whole_input_decides_witness:
  "resolveSecrets offline_world [''MALFORMED'', ''GOOD=value''] [] =
     (([''MALFORMED'', ''GOOD=value''], None), []) \<and>
   resolveSecrets offline_world [''MALFORMED'', ''aws-secret:k=v'', ''A=x-aws-secret:y''] [] =
     (([''aws-secret:k=v'', ''A=x-aws-secret:y''], None), [LoadConfig, NewClients]) \<and>
   list_all has_separator [''aws-secret:k=v'', ''A=x-aws-secret:y''] \<and>
   list_all2 (entry_resolved offline_world) [''aws-secret:k=v'', ''A=x-aws-secret:y'']
     [''aws-secret:k=v'', ''A=x-aws-secret:y'']"
proof -
  have n: "\<not> list_ex (\<lambda>e. Contains e secretPrefix) [''MALFORMED'', ''GOOD=value'']"
    by (simp add: demo_contains)
  have y: "list_ex (\<lambda>e. Contains e secretPrefix)
      [''MALFORMED'', ''aws-secret:k=v'', ''A=x-aws-secret:y'']"
    by (simp add: demo_contains)
  have f: "filter has_separator [''MALFORMED'', ''aws-secret:k=v'', ''A=x-aws-secret:y''] =
      [''aws-secret:k=v'', ''A=x-aws-secret:y'']"
    by (simp add: demo_separators)
  have 1: "resolveSecrets offline_world [''MALFORMED'', ''GOOD=value''] [] =
     (([''MALFORMED'', ''GOOD=value''], None), [])"
    by (rule whole_input_decides[THEN conjunct1, THEN mp, OF n])
  note W = whole_input_decides[THEN conjunct2, THEN mp, OF y, THEN mp, OF mixed_resolveSecrets]
  have 2: "list_all has_separator [''aws-secret:k=v'', ''A=x-aws-secret:y'']"
    by (rule W[THEN conjunct1])
  have "list_all2 (entry_resolved offline_world)
          (filter has_separator [''MALFORMED'', ''aws-secret:k=v'', ''A=x-aws-secret:y''])
          [''aws-secret:k=v'', ''A=x-aws-secret:y'']"
    by (rule W[THEN conjunct2, THEN mp, OF refl])
  then have 3: "list_all2 (entry_resolved offline_world) [''aws-secret:k=v'', ''A=x-aws-secret:y'']
     [''aws-secret:k=v'', ''A=x-aws-secret:y'']" unfolding f .
  from 1 mixed_resolveSecrets 2 3 show ?thesis by (intro conjI)
qed

subsection \<open>The retry policy of the two fetch loops\<close>

text \<open>
  Claim C8. Both fetch loops make at most three attempts: the effects they add to the trace
  are one of five sequences, in which the first attempt comes with no wait before it, the
  second after a wait of 100 ms and the third after a wait of 200 ms. When the context is
  done during a wait the loop returns the context's error at once and the trace ends with
  that wait: no further attempt is made. When all three attempts fail the error wraps the
  third failure and the attempt count 3.
\<close>

theorem fetch_retry_policy:
  "snd (getSecret w name tr) \<in>
     {tr @ [CallGetSecretValue name],
      tr @ [CallGetSecretValue name, CtxDoneDuring 100],
      tr @ [CallGetSecretValue name, TimerElapsed 100, CallGetSecretValue name],
      tr @ [CallGetSecretValue name, TimerElapsed 100, CallGetSecretValue name, CtxDoneDuring 200],
      tr @ [CallGetSecretValue name, TimerElapsed 100, CallGetSecretValue name, TimerElapsed 200,
            CallGetSecretValue name]} \<and>
   (GetSecretValue w tr name = Inl ea \<and>
    ctx_Done w (tr @ [CallGetSecretValue name]) 100 = Some cerr \<longrightarrow>
      getSecret w name tr = (Inl cerr, tr @ [CallGetSecretValue name, CtxDoneDuring 100])) \<and>
   (GetSecretValue w tr name = Inl ea \<and>
    ctx_Done w (tr @ [CallGetSecretValue name]) 100 = None \<and>
    GetSecretValue w (tr @ [CallGetSecretValue name, TimerElapsed 100]) name = Inl eb \<and>
    ctx_Done w (tr @ [CallGetSecretValue name, TimerElapsed 100, CallGetSecretValue name]) 200 =
      Some cerr \<longrightarrow>
      getSecret w name tr =
        (Inl cerr,
         tr @ [CallGetSecretValue name, TimerElapsed 100, CallGetSecretValue name,
               CtxDoneDuring 200])) \<and>
   (GetSecretValue w tr name = Inl ea \<and>
    ctx_Done w (tr @ [CallGetSecretValue name]) 100 = None \<and>
    GetSecretValue w (tr @ [CallGetSecretValue name, TimerElapsed 100]) name = Inl eb \<and>
    ctx_Done w (tr @ [CallGetSecretValue name, TimerElapsed 100, CallGetSecretValue name]) 200 =
      None \<and>
    GetSecretValue w
      (tr @ [CallGetSecretValue name, TimerElapsed 100, CallGetSecretValue name, TimerElapsed 200])
      name = Inl ec \<longrightarrow>
      getSecret w name tr =
        (Inl (FailedAfterRetries 3 (Some ec)),
         tr @ [CallGetSecretValue name, TimerElapsed 100, CallGetSecretValue name, TimerElapsed 200,
               CallGetSecretValue name]) \<and>
      error_message (FailedAfterRetries 3 (Some ec)) =
        ''failed after 3 retries: '' @ error_message ec) \<and>
   snd (getParameter w name tr) \<in>
     {tr @ [CallGetParameter name True],
      tr @ [CallGetParameter name True, CtxDoneDuring 100],
      tr @ [CallGetParameter name True, TimerElapsed 100, CallGetParameter name True],
      tr @ [CallGetParameter name True, TimerElapsed 100, CallGetParameter name True,
            CtxDoneDuring 200],
      tr @ [CallGetParameter name True, TimerElapsed 100, CallGetParameter name True,
            TimerElapsed 200, CallGetParameter name True]} \<and>
   (GetParameter w tr name True = Inl ea \<and>
    ctx_Done w (tr @ [CallGetParameter name True]) 100 = Some cerr \<longrightarrow>
      getParameter w name tr = (Inl cerr, tr @ [CallGetParameter name True, CtxDoneDuring 100])) \<and>
   (GetParameter w tr name True = Inl ea \<and>
    ctx_Done w (tr @ [CallGetParameter name True]) 100 = None \<and>
    GetParameter w (tr @ [CallGetParameter name True, TimerElapsed 100]) name True = Inl eb \<and>
    ctx_Done w (tr @ [CallGetParameter name True, TimerElapsed 100, CallGetParameter name True])
      200 = Some cerr \<longrightarrow>
      getParameter w name tr =
        (Inl cerr,
         tr @ [CallGetParameter name True, TimerElapsed 100, CallGetParameter name True,
               CtxDoneDuring 200])) \<and>
   (GetParameter w tr name True = Inl ea \<and>
    ctx_Done w (tr @ [CallGetParameter name True]) 100 = None \<and>
    GetParameter w (tr @ [CallGetParameter name True, TimerElapsed 100]) name True = Inl eb \<and>
    ctx_Done w (tr @ [CallGetParameter name True, TimerElapsed 100, CallGetParameter name True])
      200 = None \<and>
    GetParameter w
      (tr @ [CallGetParameter name True, TimerElapsed 100, CallGetParameter name True,
             TimerElapsed 200])
      name True = Inl ec \<longrightarrow>
      getParameter w name tr =
        (Inl (FailedAfterRetries 3 (Some ec)),
         tr @ [CallGetParameter name True, TimerElapsed 100, CallGetParameter name True,
               TimerElapsed 200, CallGetParameter name True]))"
proof (intro conjI impI)
  show "snd (getSecret w name tr) \<in>
     {tr @ [CallGetSecretValue name],
      tr @ [CallGetSecretValue name, CtxDoneDuring 100],
      tr @ [CallGetSecretValue name, TimerElapsed 100, CallGetSecretValue name],
      tr @ [CallGetSecretValue name, TimerElapsed 100, CallGetSecretValue name, CtxDoneDuring 200],
      tr @ [CallGetSecretValue name, TimerElapsed 100, CallGetSecretValue name, TimerElapsed 200,
            CallGetSecretValue name]}"
    by (simp add: getSecret_unrolled split: sum.split option.split)
  show "snd (getParameter w name tr) \<in>
     {tr @ [CallGetParameter name True],
      tr @ [CallGetParameter name True, CtxDoneDuring 100],
      tr @ [CallGetParameter name True, TimerElapsed 100, CallGetParameter name True],
      tr @ [CallGetParameter name True, TimerElapsed 100, CallGetParameter name True,
            CtxDoneDuring 200],
      tr @ [CallGetParameter name True, TimerElapsed 100, CallGetParameter name True,
            TimerElapsed 200, CallGetParameter name True]}"
    by (simp add: getParameter_unrolled split: sum.split option.split)
qed (simp_all add: getSecret_unrolled getParameter_unrolled show_nat_3)


theorem fetch_retry_policy_witness:
  "getSecret offline_world ''db'' [] =
     (Inl (FailedAfterRetries 3 (Some (SdkError ''no route to host''))),
      [CallGetSecretValue ''db'', TimerElapsed 100, CallGetSecretValue ''db'', TimerElapsed 200,
       CallGetSecretValue ''db'']) \<and>
   getSecret expired_world ''db'' [] =
     (Inl (ContextError DeadlineExceeded), [CallGetSecretValue ''db'', CtxDoneDuring 100]) \<and>
   getSecret late_expiry_world ''db'' [] =
     (Inl (ContextError Canceled),
      [CallGetSecretValue ''db'', TimerElapsed 100, CallGetSecretValue ''db'', CtxDoneDuring 200]) \<and>
   getParameter offline_world ''/p'' [] =
     (Inl (FailedAfterRetries 3 (Some (SdkError ''no route to host''))),
      [CallGetParameter ''/p'' True, TimerElapsed 100, CallGetParameter ''/p'' True,
       TimerElapsed 200, CallGetParameter ''/p'' True]) \<and>
   getParameter expired_world ''/p'' [] =
     (Inl (ContextError DeadlineExceeded), [CallGetParameter ''/p'' True, CtxDoneDuring 100]) \<and>
   getParameter late_expiry_world ''/p'' [] =
     (Inl (ContextError Canceled),
      [CallGetParameter ''/p'' True, TimerElapsed 100, CallGetParameter ''/p'' True,
       CtxDoneDuring 200])"
proof (intro conjI)
  show "getSecret offline_world ''db'' [] =
     (Inl (FailedAfterRetries 3 (Some (SdkError ''no route to host''))),
      [CallGetSecretValue ''db'', TimerElapsed 100, CallGetSecretValue ''db'', TimerElapsed 200,
       CallGetSecretValue ''db''])"
    using fetch_retry_policy[where w = offline_world and name = "''db''" and tr = "[]"
        and ea = "SdkError ''no route to host''" and eb = "SdkError ''no route to host''"
        and ec = "SdkError ''no route to host''"]
    by (simp add: offline_world_simps)
  show "getSecret expired_world ''db'' [] =
     (Inl (ContextError DeadlineExceeded), [CallGetSecretValue ''db'', CtxDoneDuring 100])"
    using fetch_retry_policy[where w = expired_world and name = "''db''" and tr = "[]"
        and ea = "SdkError ''request timeout''" and cerr = "ContextError DeadlineExceeded"]
    by (simp add: expired_world_simps)
  show "getSecret late_expiry_world ''db'' [] =
     (Inl (ContextError Canceled),
      [CallGetSecretValue ''db'', TimerElapsed 100, CallGetSecretValue ''db'', CtxDoneDuring 200])"
    using fetch_retry_policy[where w = late_expiry_world and name = "''db''" and tr = "[]"
        and ea = "SdkError ''request timeout''" and eb = "SdkError ''request timeout''"
        and cerr = "ContextError Canceled"]
    by (simp add: late_expiry_world_simps)
  show "getParameter offline_world ''/p'' [] =
     (Inl (FailedAfterRetries 3 (Some (SdkError ''no route to host''))),
      [CallGetParameter ''/p'' True, TimerElapsed 100, CallGetParameter ''/p'' True,
       TimerElapsed 200, CallGetParameter ''/p'' True])"
    using fetch_retry_policy[where w = offline_world and name = "''/p''" and tr = "[]"
        and ea = "SdkError ''no route to host''" and eb = "SdkError ''no route to host''"
        and ec = "SdkError ''no route to host''"]
    by (simp add: offline_world_simps)
  show "getParameter expired_world ''/p'' [] =
     (Inl (ContextError DeadlineExceeded), [CallGetParameter ''/p'' True, CtxDoneDuring 100])"
    using fetch_retry_policy[where w = expired_world and name = "''/p''" and tr = "[]"
        and ea = "SdkError ''request timeout''" and cerr = "ContextError DeadlineExceeded"]
    by (simp add: expired_world_simps)
  show "getParameter late_expiry_world ''/p'' [] =
     (Inl (ContextError Canceled),
      [CallGetParameter ''/p'' True, TimerElapsed 100, CallGetParameter ''/p'' True,
       CtxDoneDuring 200])"
    using fetch_retry_policy[where w = late_expiry_world and name = "''/p''" and tr = "[]"
        and ea = "SdkError ''request timeout''" and eb = "SdkError ''request timeout''"
        and cerr = "ContextError Canceled"]
    by (simp add: late_expiry_world_simps)
qed

subsection \<open>A fetch that carries no value\<close>

text \<open>
  Claim C4, as stated, says that an answer with no usable value is retried like a failed
  attempt. The loops do the opposite: in the world below the first answer has no value and a
  second attempt would have obtained one, yet each loop makes one attempt and returns its
  error.
\<close>

theorem no_value_is_not_retried:
  "getSecret nil_first_world ''db'' [] =
     (Inl BinaryNotSupported, [CallGetSecretValue ''db'']) \<and>
   GetSecretValue nil_first_world [CallGetSecretValue ''db''] ''db'' = Inr (Some ''value'') \<and>
   getParameter nil_first_world ''/p'' [] =
     (Inl ParameterNoValue, [CallGetParameter ''/p'' True]) \<and>
   GetParameter nil_first_world [CallGetParameter ''/p'' True] ''/p'' True =
     Inr (Some (Some ''value''))"
  by (simp add: getSecret_unrolled getParameter_unrolled nil_first_world_simps)

text \<open>
  Claim C4, amended. An attempt that succeeds at the transport level but carries no usable
  value (a nil \<open>SecretString\<close>; a nil \<open>Parameter\<close> or a nil \<open>Parameter.Value\<close>) ends the
  loop at once, whichever of the three attempts it is: \<open>getSecret\<close> returns ``binary
  secrets not supported'' and \<open>getParameter\<close> returns ``parameter has no value'', and the
  trace ends with that attempt. Only transport errors are retried.
\<close>

theorem no_value_ends_the_loop:
  "(GetSecretValue w tr name = Inr None \<longrightarrow>
      getSecret w name tr = (Inl BinaryNotSupported, tr @ [CallGetSecretValue name])) \<and>
   (GetSecretValue w tr name = Inl ea \<and>
    ctx_Done w (tr @ [CallGetSecretValue name]) 100 = None \<and>
    GetSecretValue w (tr @ [CallGetSecretValue name, TimerElapsed 100]) name = Inr None \<longrightarrow>
      getSecret w name tr =
        (Inl BinaryNotSupported,
         tr @ [CallGetSecretValue name, TimerElapsed 100, CallGetSecretValue name])) \<and>
   (GetSecretValue w tr name = Inl ea \<and>
    ctx_Done w (tr @ [CallGetSecretValue name]) 100 = None \<and>
    GetSecretValue w (tr @ [CallGetSecretValue name, TimerElapsed 100]) name = Inl eb \<and>
    ctx_Done w (tr @ [CallGetSecretValue name, TimerElapsed 100, CallGetSecretValue name]) 200 =
      None \<and>
    GetSecretValue w
      (tr @ [CallGetSecretValue name, TimerElapsed 100, CallGetSecretValue name, TimerElapsed 200])
      name = Inr None \<longrightarrow>
      getSecret w name tr =
        (Inl BinaryNotSupported,
         tr @ [CallGetSecretValue name, TimerElapsed 100, CallGetSecretValue name, TimerElapsed 200,
               CallGetSecretValue name])) \<and>
   (GetParameter w tr name True \<in> {Inr None, Inr (Some None)} \<longrightarrow>
      getParameter w name tr = (Inl ParameterNoValue, tr @ [CallGetParameter name True])) \<and>
   (GetParameter w tr name True = Inl ea \<and>
    ctx_Done w (tr @ [CallGetParameter name True]) 100 = None \<and>
    GetParameter w (tr @ [CallGetParameter name True, TimerElapsed 100]) name True
      \<in> {Inr None, Inr (Some None)} \<longrightarrow>
      getParameter w name tr =
        (Inl ParameterNoValue,
         tr @ [CallGetParameter name True, TimerElapsed 100, CallGetParameter name True])) \<and>
   (GetParameter w tr name True = Inl ea \<and>
    ctx_Done w (tr @ [CallGetParameter name True]) 100 = None \<and>
    GetParameter w (tr @ [CallGetParameter name True, TimerElapsed 100]) name True = Inl eb \<and>
    ctx_Done w (tr @ [CallGetParameter name True, TimerElapsed 100, CallGetParameter name True])
      200 = None \<and>
    GetParameter w
      (tr @ [CallGetParameter name True, TimerElapsed 100, CallGetParameter name True,
             TimerElapsed 200])
      name True \<in> {Inr None, Inr (Some None)} \<longrightarrow>
      getParameter w name tr =
        (Inl ParameterNoValue,
         tr @ [CallGetParameter name True, TimerElapsed 100, CallGetParameter name True,
               TimerElapsed 200, CallGetParameter name True]))"
  by (auto simp: getSecret_unrolled getParameter_unrolled)

theorem no_value_ends_the_loop_witness:
  "getSecret nil_first_world ''db'' [] =
     (Inl BinaryNotSupported, [CallGetSecretValue ''db'']) \<and>
   getSecret fail_then_nil_world ''db'' [] =
     (Inl BinaryNotSupported,
      [CallGetSecretValue ''db'', TimerElapsed 100, CallGetSecretValue ''db'']) \<and>
   getSecret fail_twice_then_nil_world ''db'' [] =
     (Inl BinaryNotSupported,
      [CallGetSecretValue ''db'', TimerElapsed 100, CallGetSecretValue ''db'', TimerElapsed 200,
       CallGetSecretValue ''db'']) \<and>
   getParameter nil_first_world ''/p'' [] =
     (Inl ParameterNoValue, [CallGetParameter ''/p'' True]) \<and>
   getParameter fail_then_nil_world ''/p'' [] =
     (Inl ParameterNoValue,
      [CallGetParameter ''/p'' True, TimerElapsed 100, CallGetParameter ''/p'' True]) \<and>
   getParameter fail_twice_then_nil_world ''/p'' [] =
     (Inl ParameterNoValue,
      [CallGetParameter ''/p'' True, TimerElapsed 100, CallGetParameter ''/p'' True,
       TimerElapsed 200, CallGetParameter ''/p'' True])"
proof (intro conjI)
  show "getSecret nil_first_world ''db'' [] =
     (Inl BinaryNotSupported, [CallGetSecretValue ''db''])"
    using no_value_ends_the_loop[where w = nil_first_world and name = "''db''" and tr = "[]"]
    by (simp add: nil_first_world_simps)
  show "getSecret fail_then_nil_world ''db'' [] =
     (Inl BinaryNotSupported,
      [CallGetSecretValue ''db'', TimerElapsed 100, CallGetSecretValue ''db''])"
    using no_value_ends_the_loop[where w = fail_then_nil_world and name = "''db''" and tr = "[]"
        and ea = "SdkError ''throttled''"]
    by (simp add: fail_then_nil_world_simps)
  show "getSecret fail_twice_then_nil_world ''db'' [] =
     (Inl BinaryNotSupported,
      [CallGetSecretValue ''db'', TimerElapsed 100, CallGetSecretValue ''db'', TimerElapsed 200,
       CallGetSecretValue ''db''])"
    using no_value_ends_the_loop[where w = fail_twice_then_nil_world and name = "''db''"
        and tr = "[]" and ea = "SdkError ''throttled''" and eb = "SdkError ''throttled''"]
    by (simp add: fail_twice_then_nil_world_simps)
  show "getParameter nil_first_world ''/p'' [] =
     (Inl ParameterNoValue, [CallGetParameter ''/p'' True])"
    using no_value_ends_the_loop[where w = nil_first_world and name = "''/p''" and tr = "[]"]
    by (simp add: nil_first_world_simps)
  show "getParameter fail_then_nil_world ''/p'' [] =
     (Inl ParameterNoValue,
      [CallGetParameter ''/p'' True, TimerElapsed 100, CallGetParameter ''/p'' True])"
    using no_value_ends_the_loop[where w = fail_then_nil_world and name = "''/p''" and tr = "[]"
        and ea = "SdkError ''throttled''"]
    by (simp add: fail_then_nil_world_simps)
  show "getParameter fail_twice_then_nil_world ''/p'' [] =
     (Inl ParameterNoValue,
      [CallGetParameter ''/p'' True, TimerElapsed 100, CallGetParameter ''/p'' True,
       TimerElapsed 200, CallGetParameter ''/p'' True])"
    using no_value_ends_the_loop[where w = fail_twice_then_nil_world and name = "''/p''"
        and tr = "[]" and ea = "SdkError ''throttled''" and eb = "SdkError ''throttled''"]
    by (simp add: fail_twice_then_nil_world_simps)
qed

subsection \<open>Parsing a reference\<close>

text \<open>
  Claim C6. For a reference that begins with the prefix, \<open>resolveSecret\<close> applies its rules
  in order. (1) The prefix is stripped and an empty remainder is the error ``empty secret
  reference'', with no fetch. (2) A remainder that starts with
  \<open>/aws/reference/secretsmanager/\<close> is passed whole to \<open>getParameter\<close>, a \<open>#\<close> in it
  included, and the result of \<open>getParameter\<close> is the result. (3) Any other remainder is split
  at its first \<open>#\<close> only: without a \<open>#\<close> the whole remainder is the secret name; with one,
  the text before it is the secret name and everything after it, further \<open>#\<close> included, is
  the key, so that \<open>name#k1#k2\<close> gives the name \<open>name\<close> and the key \<open>k1#k2\<close>. (4) An empty
  name is the error ``empty secret name'', with no fetch.
\<close>

theorem resolveSecret_parsing_rules:
  "resolveSecret w (secretPrefix @ []) tr = (Inl EmptyReference, tr) \<and>
   (rem \<noteq> [] \<and> HasPrefix rem ''/aws/reference/secretsmanager/'' \<longrightarrow>
      resolveSecret w (secretPrefix @ rem) tr = getParameter w rem tr) \<and>
   (rem \<noteq> [] \<and> \<not> HasPrefix rem ''/aws/reference/secretsmanager/'' \<and> CHR ''#'' \<notin> set rem \<longrightarrow>
      resolveSecret w (secretPrefix @ rem) tr = getSecret w rem tr) \<and>
   resolveSecret w (secretPrefix @ ''#'' @ key) tr = (Inl EmptyName, tr) \<and>
   (CHR ''#'' \<notin> set name \<and> name \<noteq> [] \<and>
    \<not> HasPrefix (name @ ''#'' @ key) ''/aws/reference/secretsmanager/'' \<longrightarrow>
      resolveSecret w (secretPrefix @ name @ ''#'' @ key) tr =
        (case getSecret w name tr of
           (Inl err, tr') \<Rightarrow> (Inl err, tr')
         | (Inr secretValue, tr') \<Rightarrow>
            (case Unmarshal w secretValue of
               Inl err \<Rightarrow> (Inl (NotJSON name err), tr')
             | Inr parsed \<Rightarrow>
                (case parsed key of
                   None \<Rightarrow> (Inl (KeyNotFound key name), tr')
                 | Some v \<Rightarrow> (Inr v, tr'))))) \<and>
   SplitN ''name#k1#k2'' ''#'' 2 = [''name'', ''k1#k2'']"
proof (intro conjI impI)
  show "resolveSecret w (secretPrefix @ []) tr = (Inl EmptyReference, tr)"
    by (simp add: resolveSecret_empty)
  show "resolveSecret w (secretPrefix @ ''#'' @ key) tr = (Inl EmptyName, tr)"
    by (rule resolveSecret_empty_name)
  show "SplitN ''name#k1#k2'' ''#'' 2 = [''name'', ''k1#k2'']"
    using SplitN2_hash[of "CHR ''#''" "''name''" "''k1#k2''"] by simp
next
  assume "rem \<noteq> [] \<and> HasPrefix rem ''/aws/reference/secretsmanager/''"
  then show "resolveSecret w (secretPrefix @ rem) tr = getParameter w rem tr"
    by (simp add: resolveSecret_parameter)
next
  assume "rem \<noteq> [] \<and> \<not> HasPrefix rem ''/aws/reference/secretsmanager/'' \<and> CHR ''#'' \<notin> set rem"
  then show "resolveSecret w (secretPrefix @ rem) tr = getSecret w rem tr"
    by (simp add: resolveSecret_plain)
next
  assume "CHR ''#'' \<notin> set name \<and> name \<noteq> [] \<and>
    \<not> HasPrefix (name @ ''#'' @ key) ''/aws/reference/secretsmanager/''"
  then show "resolveSecret w (secretPrefix @ name @ ''#'' @ key) tr =
        (case getSecret w name tr of
           (Inl err, tr') \<Rightarrow> (Inl err, tr')
         | (Inr secretValue, tr') \<Rightarrow>
            (case Unmarshal w secretValue of
               Inl err \<Rightarrow> (Inl (NotJSON name err), tr')
             | Inr parsed \<Rightarrow>
                (case parsed key of
                   None \<Rightarrow> (Inl (KeyNotFound key name), tr')
                 | Some v \<Rightarrow> (Inr v, tr'))))"
    using resolveSecret_keyed[of name key w tr] by blast
qed

theorem resolveSecret_parsing_rules_witness:
  "resolveSecret demo_world ''aws-secret:'' [] = (Inl EmptyReference, []) \<and>
   resolveSecret demo_world ''aws-secret:/aws/reference/secretsmanager/myapp/token'' [] =
     (Inr ''token-value'', [CallGetParameter ''/aws/reference/secretsmanager/myapp/token'' True]) \<and>
   resolveSecret demo_world ''aws-secret:myapp/prod'' [] =
     (Inr example_json, [CallGetSecretValue ''myapp/prod'']) \<and>
   resolveSecret demo_world ''aws-secret:#key'' [] = (Inl EmptyName, []) \<and>
   resolveSecret demo_world ''aws-secret:myapp/prod#k1#k2'' [] =
     (Inl (KeyNotFound ''k1#k2'' ''myapp/prod''), [CallGetSecretValue ''myapp/prod''])"
proof (intro conjI)
  note R = resolveSecret_parsing_rules[where w = demo_world and tr = "[]"]
  show "resolveSecret demo_world ''aws-secret:'' [] = (Inl EmptyReference, [])"
    unfolding demo_refs(1) using R by blast
  show "resolveSecret demo_world ''aws-secret:/aws/reference/secretsmanager/myapp/token'' [] =
     (Inr ''token-value'', [CallGetParameter ''/aws/reference/secretsmanager/myapp/token'' True])"
    unfolding demo_refs(8)
    using R[where rem = "''/aws/reference/secretsmanager/myapp/token''"] demo_names(8,9)
      demo_getParameter_token[of "[]"]
    by simp
  show "resolveSecret demo_world ''aws-secret:myapp/prod'' [] =
     (Inr example_json, [CallGetSecretValue ''myapp/prod''])"
    unfolding demo_refs(2)
    using R[where rem = "''myapp/prod''"] demo_names(1,2,3) demo_getSecret_prod[of "[]"]
    by simp
  show "resolveSecret demo_world ''aws-secret:#key'' [] = (Inl EmptyName, [])"
    unfolding demo_refs(7) using R[where key = "''key''"] by blast
  show "resolveSecret demo_world ''aws-secret:myapp/prod#k1#k2'' [] =
     (Inl (KeyNotFound ''k1#k2'' ''myapp/prod''), [CallGetSecretValue ''myapp/prod''])"
    unfolding demo_refs(5)
    using R[where name = "''myapp/prod''" and key = "''k1#k2''"] demo_names(1,2)
      demo_names(4)[of "''k1#k2''"] demo_getSecret_prod[of "[]"] demo_world_simps(6)
    by simp
qed

subsection \<open>Extracting the value\<close>

lemma getSecret_ignores_Unmarshal:
  "getSecret (w\<lparr>Unmarshal := u\<rparr>) name tr = getSecret w name tr"
  by (simp add: getSecret_unrolled split: sum.split option.split)

text \<open>
  Claim C7. For a reference to the secret store: without a key, \<open>resolveSecret\<close> returns the
  fetched text unchanged, whatever \<open>json.Unmarshal\<close> would make of it (the result is the
  same for every \<open>Unmarshal\<close>, so the text is not parsed). With a key the text is parsed as a
  mapping from strings to strings: a parse failure is the error ``secret NAME is not valid
  JSON'', a missing key is the error ``key KEY not found in secret NAME'', and a present key
  gives exactly the mapped value.
\<close>

theorem resolveSecret_value_extraction:
  "(CHR ''#'' \<notin> set name \<and> name \<noteq> [] \<and>
    \<not> HasPrefix name ''/aws/reference/secretsmanager/'' \<and>
    getSecret w name tr = (Inr raw, tr') \<longrightarrow>
      (\<forall>u. resolveSecret (w\<lparr>Unmarshal := u\<rparr>) (secretPrefix @ name) tr = (Inr raw, tr'))) \<and>
   (CHR ''#'' \<notin> set name \<and> name \<noteq> [] \<and>
    \<not> HasPrefix (name @ ''#'' @ key) ''/aws/reference/secretsmanager/'' \<and>
    getSecret w name tr = (Inr raw, tr') \<longrightarrow>
      (Unmarshal w raw = Inl jerr \<longrightarrow>
         resolveSecret w (secretPrefix @ name @ ''#'' @ key) tr = (Inl (NotJSON name jerr), tr') \<and>
         error_message (NotJSON name jerr) =
           ''secret '' @ name @ '' is not valid JSON: '' @ error_message jerr) \<and>
      (Unmarshal w raw = Inr parsed \<and> parsed key = None \<longrightarrow>
         resolveSecret w (secretPrefix @ name @ ''#'' @ key) tr =
           (Inl (KeyNotFound key name), tr') \<and>
         error_message (KeyNotFound key name) = ''key '' @ key @ '' not found in secret '' @ name) \<and>
      (Unmarshal w raw = Inr parsed \<and> parsed key = Some v \<longrightarrow>
         resolveSecret w (secretPrefix @ name @ ''#'' @ key) tr = (Inr v, tr')))"
proof (intro conjI impI allI)
  fix u
  assume a: "CHR ''#'' \<notin> set name \<and> name \<noteq> [] \<and>
    \<not> HasPrefix name ''/aws/reference/secretsmanager/'' \<and>
    getSecret w name tr = (Inr raw, tr')"
  then have "resolveSecret (w\<lparr>Unmarshal := u\<rparr>) (secretPrefix @ name) tr =
      getSecret (w\<lparr>Unmarshal := u\<rparr>) name tr"
    using resolveSecret_plain[of name "w\<lparr>Unmarshal := u\<rparr>" tr] by blast
  with a show "resolveSecret (w\<lparr>Unmarshal := u\<rparr>) (secretPrefix @ name) tr = (Inr raw, tr')"
    by (simp add: getSecret_ignores_Unmarshal)
next
  assume a: "CHR ''#'' \<notin> set name \<and> name \<noteq> [] \<and>
    \<not> HasPrefix (name @ ''#'' @ key) ''/aws/reference/secretsmanager/'' \<and>
    getSecret w name tr = (Inr raw, tr')"
    and j: "Unmarshal w raw = Inl jerr"
  from a have k: "CHR ''#'' \<notin> set name" "name \<noteq> []"
    "\<not> HasPrefix (name @ ''#'' @ key) ''/aws/reference/secretsmanager/''"
    and g: "getSecret w name tr = (Inr raw, tr')" by blast+
  show "resolveSecret w (secretPrefix @ name @ ''#'' @ key) tr = (Inl (NotJSON name jerr), tr')"
    unfolding resolveSecret_keyed[OF k] using g j by simp
  show "error_message (NotJSON name jerr) =
           ''secret '' @ name @ '' is not valid JSON: '' @ error_message jerr"
    by simp
next
  assume a: "CHR ''#'' \<notin> set name \<and> name \<noteq> [] \<and>
    \<not> HasPrefix (name @ ''#'' @ key) ''/aws/reference/secretsmanager/'' \<and>
    getSecret w name tr = (Inr raw, tr')"
    and j: "Unmarshal w raw = Inr parsed \<and> parsed key = None"
  from a have k: "CHR ''#'' \<notin> set name" "name \<noteq> []"
    "\<not> HasPrefix (name @ ''#'' @ key) ''/aws/reference/secretsmanager/''"
    and g: "getSecret w name tr = (Inr raw, tr')" by blast+
  show "resolveSecret w (secretPrefix @ name @ ''#'' @ key) tr =
           (Inl (KeyNotFound key name), tr')"
    unfolding resolveSecret_keyed[OF k] using g j by simp
  show "error_message (KeyNotFound key name) = ''key '' @ key @ '' not found in secret '' @ name"
    by simp
next
  assume a: "CHR ''#'' \<notin> set name \<and> name \<noteq> [] \<and>
    \<not> HasPrefix (name @ ''#'' @ key) ''/aws/reference/secretsmanager/'' \<and>
    getSecret w name tr = (Inr raw, tr')"
    and j: "Unmarshal w raw = Inr parsed \<and> parsed key = Some v"
  from a have k: "CHR ''#'' \<notin> set name" "name \<noteq> []"
    "\<not> HasPrefix (name @ ''#'' @ key) ''/aws/reference/secretsmanager/''"
    and g: "getSecret w name tr = (Inr raw, tr')" by blast+
  show "resolveSecret w (secretPrefix @ name @ ''#'' @ key) tr = (Inr v, tr')"
    unfolding resolveSecret_keyed[OF k] using g j by simp
qed


theorem resolveSecret_value_extraction_witness:
  "resolveSecret demo_world ''aws-secret:myapp/api'' [] =
     (Inr ''plain-text-secret'', [CallGetSecretValue ''myapp/api'']) \<and>
   Unmarshal demo_world ''plain-text-secret'' = Inl (JsonError ''invalid character'') \<and>
   resolveSecret demo_world ''aws-secret:myapp/api#key'' [] =
     (Inl (NotJSON ''myapp/api'' (JsonError ''invalid character'')),
      [CallGetSecretValue ''myapp/api'']) \<and>
   resolveSecret demo_world ''aws-secret:myapp/prod#missing'' [] =
     (Inl (KeyNotFound ''missing'' ''myapp/prod''), [CallGetSecretValue ''myapp/prod'']) \<and>
   Unmarshal demo_world example_json =
     Inr [''database_url'' \<mapsto> ''postgres://localhost'', ''api_key'' \<mapsto> ''secret123''] \<and>
   resolveSecret demo_world ''aws-secret:myapp/prod#database_url'' [] =
     (Inr ''postgres://localhost'', [CallGetSecretValue ''myapp/prod''])"
proof (intro conjI)
  note A = resolveSecret_value_extraction[where w = demo_world and tr = "[]"
      and name = "''myapp/api''" and raw = "''plain-text-secret''"
      and tr' = "[CallGetSecretValue ''myapp/api'']"]
  note P = resolveSecret_value_extraction[where w = demo_world and tr = "[]"
      and name = "''myapp/prod''" and raw = example_json
      and tr' = "[CallGetSecretValue ''myapp/prod'']"
      and parsed = "[''database_url'' \<mapsto> ''postgres://localhost'', ''api_key'' \<mapsto> ''secret123'']"]
  have "\<forall>u. resolveSecret (demo_world\<lparr>Unmarshal := u\<rparr>) (secretPrefix @ ''myapp/api'') [] =
          (Inr ''plain-text-secret'', [CallGetSecretValue ''myapp/api''])"
    using A demo_names(5,6,10) demo_getSecret_api[of "[]"] by simp
  then have "resolveSecret (demo_world\<lparr>Unmarshal := Unmarshal demo_world\<rparr>)
      (secretPrefix @ ''myapp/api'') [] =
          (Inr ''plain-text-secret'', [CallGetSecretValue ''myapp/api''])"
    by blast
  then show "resolveSecret demo_world ''aws-secret:myapp/api'' [] =
     (Inr ''plain-text-secret'', [CallGetSecretValue ''myapp/api''])"
    unfolding demo_refs(9) by simp
  show "Unmarshal demo_world ''plain-text-secret'' = Inl (JsonError ''invalid character'')"
    by (rule demo_world_not_json)
  show "resolveSecret demo_world ''aws-secret:myapp/api#key'' [] =
     (Inl (NotJSON ''myapp/api'' (JsonError ''invalid character'')),
      [CallGetSecretValue ''myapp/api''])"
    unfolding demo_refs(6)
    using A[where key = "''key''" and jerr = "JsonError ''invalid character''"]
      demo_names(5,6) demo_names(7)[of "''key''"] demo_getSecret_api[of "[]"] demo_world_not_json
    by simp
  show "resolveSecret demo_world ''aws-secret:myapp/prod#missing'' [] =
     (Inl (KeyNotFound ''missing'' ''myapp/prod''), [CallGetSecretValue ''myapp/prod''])"
    unfolding demo_refs(4)
    using P[where key = "''missing''"]
      demo_names(1,2) demo_names(4)[of "''missing''"] demo_getSecret_prod[of "[]"]
      demo_world_simps(6)
    by simp
  show "Unmarshal demo_world example_json =
     Inr [''database_url'' \<mapsto> ''postgres://localhost'', ''api_key'' \<mapsto> ''secret123'']"
    by (rule demo_world_simps(6))
  show "resolveSecret demo_world ''aws-secret:myapp/prod#database_url'' [] =
     (Inr ''postgres://localhost'', [CallGetSecretValue ''myapp/prod''])"
    unfolding demo_refs(3)
    using P[where key = "''database_url''" and v = "''postgres://localhost''"]
      demo_names(1,2) demo_names(4)[of "''database_url''"] demo_getSecret_prod[of "[]"]
      demo_world_simps(6)
    by simp
qed

subsection \<open>The exit code of \<open>execute\<close>\<close>

lemma execute_exited:
  assumes "n < 256"
  shows "fst (execute (child_world (Reaped (exited_with n))) command args env) = int n"
  using assms
  by (simp add: execute_def child_world_def cmd_Wait_def ExitStatus_exited_with Let_def)

lemma execute_signaled:
  assumes "0 < s" "s < 128"
  shows "fst (execute (child_world (Reaped (killed_by s))) command args env) = - 1"
  using assms
  by (simp add: execute_def child_world_def cmd_Wait_def ExitStatus_killed_by Let_def)

lemma execute_wait_failed:
  "fst (execute (child_world (WaitFailed m)) command args env) = 1"
  by (simp add: execute_def child_world_def cmd_Wait_def Let_def)

text \<open>
  Claim C3 says that \<open>execute\<close> turns a normal exit with code N into N, and a child
  terminated by a signal, a command that cannot be started and any other failure of the wait
  into 1. The code does so except for the child terminated by a signal: \<open>cmd.Wait\<close> then
  returns an \<open>*exec.ExitError\<close> whose \<open>Sys()\<close> is a \<open>syscall.WaitStatus\<close>, both type
  assertions succeed, and \<open>execute\<close> returns \<open>status.ExitStatus()\<close>, which is \<open>-1\<close> for a
  child that did not exit normally. Below: a child killed by signal 9 gives \<open>-1\<close>, not 1;
  the exit codes 42 and 0 are passed on; a command that cannot be started gives 1 and the
  function returns before subscribing to signals or waiting; a failed wait gives 1.
\<close>

theorem execute_exit_codes:
  "Signaled (killed_by 9) \<and>
   execute (child_world (Reaped (killed_by 9))) ''sleep'' [''60''] [] =
     (- 1,
      [CmdStart ''sleep'' [''60''] [], Logged (LogStarted ''sleep'' 7),
       SignalNotify [SIGTERM, SIGINT, SIGQUIT, SIGUSR1, SIGUSR2], GoHandleSignals 7, CmdWait 7,
       SignalStop]) \<and>
   fst (execute (child_world (Reaped (exited_with 42))) ''sh'' [''-c'', ''exit 42''] []) = 42 \<and>
   fst (execute (child_world (Reaped (exited_with 0))) ''true'' [] []) = 0 \<and>
   execute no_such_command_world ''/nonexistent/command'' [] [] =
     (1,
      [CmdStart ''/nonexistent/command'' [] [],
       Logged (LogFailedToStart ''/nonexistent/command'' ''executable file not found in $PATH'')]) \<and>
   execute (child_world (WaitFailed ''wait: no child processes'')) ''true'' [] [] =
     (1,
      [CmdStart ''true'' [] [], Logged (LogStarted ''true'' 7),
       SignalNotify [SIGTERM, SIGINT, SIGQUIT, SIGUSR1, SIGUSR2], GoHandleSignals 7, CmdWait 7,
       SignalStop, Logged LogProcessFailed])"
proof (intro conjI)
  show "Signaled (killed_by 9)" by (rule Signaled_sigkill)
  show "execute (child_world (Reaped (killed_by 9))) ''sleep'' [''60''] [] =
     (- 1,
      [CmdStart ''sleep'' [''60''] [], Logged (LogStarted ''sleep'' 7),
       SignalNotify [SIGTERM, SIGINT, SIGQUIT, SIGUSR1, SIGUSR2], GoHandleSignals 7, CmdWait 7,
       SignalStop])"
    by (simp add: execute_def child_world_def cmd_Wait_def ExitStatus_sigkill Let_def)
  show "fst (execute (child_world (Reaped (exited_with 42))) ''sh'' [''-c'', ''exit 42''] []) = 42"
    using execute_exited[of 42] by simp
  show "fst (execute (child_world (Reaped (exited_with 0))) ''true'' [] []) = 0"
    using execute_exited[of 0] by simp
  show "execute no_such_command_world ''/nonexistent/command'' [] [] =
     (1,
      [CmdStart ''/nonexistent/command'' [] [],
       Logged (LogFailedToStart ''/nonexistent/command'' ''executable file not found in $PATH'')])"
    by (simp add: execute_def no_such_command_world_def)
  show "execute (child_world (WaitFailed ''wait: no child processes'')) ''true'' [] [] =
     (1,
      [CmdStart ''true'' [] [], Logged (LogStarted ''true'' 7),
       SignalNotify [SIGTERM, SIGINT, SIGQUIT, SIGUSR1, SIGUSR2], GoHandleSignals 7, CmdWait 7,
       SignalStop, Logged LogProcessFailed])"
    by (simp add: execute_def child_world_def cmd_Wait_def Let_def)
qed

subsection \<open>The shutdown timer\<close>




end
